theory Spec2Isabelle
  imports Main "HOL-Library.Char_ord" "HOL-Library.List_Lexorder" "HOL-Library.Word"
begin

unbundle bit_operations_syntax

section \<open>JSON documents\<close>

text \<open>
  gator reads one JSON document on standard input, decodes it twice with
  \<^verbatim>\<open>encoding/json\<close> (once into the \<^verbatim>\<open>PluginConfig\<close> struct, once into a plain
  interface) and hands texts to \<^verbatim>\<open>jsonpatch.MergePatch\<close>, which decodes them again.
  The untyped tree is a tagged variant over object, array, string, number, boolean
  and null. A number keeps its lexeme: the one thing that is ever done with its value is
  the range check of the decoding into a plain interface. An object keeps its members
  in the order of the text, duplicates included, because the struct decoder visits
  them in that order.
\<close>

datatype json =
    JNull
  | JBool bool
  | JNumber string
  | JString string
  | JArray "json list"
  | JObject "(string \<times> json) list"

subsection \<open>Scanning\<close>

datatype token =
    TLBrace | TRBrace | TLBracket | TRBracket | TColon | TComma
  | TString string | TNumber string | TTrue | TFalse | TNull

text \<open>The states of the number grammar
  \<^verbatim>\<open>-? (0 | [1-9][0-9]*) (. [0-9]+)? ([eE] [+-]? [0-9]+)?\<close>.\<close>

datatype numstate = NMinus | NZero | NInt | NDot | NFrac | NExp | NExpSign | NExpDigits

text \<open>Inside a string literal a unit is a byte of the text or the 16-bit value of a
  \<^verbatim>\<open>\uXXXX\<close> escape; two adjacent escapes may form a surrogate pair.\<close>

datatype strunit = Byte char | Unit16 nat

datatype lexstate =
    LIdle
  | LString "strunit list"
  | LEscape "strunit list"
  | LUnicode "strunit list" "nat list"
  | LNum numstate string
  | LLiteral string token

definition is_space :: "char \<Rightarrow> bool" where
  "is_space c \<longleftrightarrow> c \<in> set [CHR '' '', CHR 0x09, CHR 0x0A, CHR 0x0D]"

definition is_digit :: "char \<Rightarrow> bool" where
  "is_digit c \<longleftrightarrow> c \<in> set ''0123456789''"

definition is_digit19 :: "char \<Rightarrow> bool" where
  "is_digit19 c \<longleftrightarrow> c \<in> set ''123456789''"

definition is_exp :: "char \<Rightarrow> bool" where
  "is_exp c \<longleftrightarrow> c = CHR ''e'' \<or> c = CHR ''E''"

fun num_step :: "numstate \<Rightarrow> char \<Rightarrow> numstate option" where
  "num_step NMinus c =
     (if c = CHR ''0'' then Some NZero else if is_digit19 c then Some NInt else None)"
| "num_step NZero c =
     (if c = CHR ''.'' then Some NDot else if is_exp c then Some NExp else None)"
| "num_step NInt c =
     (if is_digit c then Some NInt else if c = CHR ''.'' then Some NDot
      else if is_exp c then Some NExp else None)"
| "num_step NDot c = (if is_digit c then Some NFrac else None)"
| "num_step NFrac c =
     (if is_digit c then Some NFrac else if is_exp c then Some NExp else None)"
| "num_step NExp c =
     (if c = CHR ''+'' \<or> c = CHR ''-'' then Some NExpSign
      else if is_digit c then Some NExpDigits else None)"
| "num_step NExpSign c = (if is_digit c then Some NExpDigits else None)"
| "num_step NExpDigits c = (if is_digit c then Some NExpDigits else None)"

fun num_complete :: "numstate \<Rightarrow> bool" where
  "num_complete NZero = True"
| "num_complete NInt = True"
| "num_complete NFrac = True"
| "num_complete NExpDigits = True"
| "num_complete _ = False"

definition hexval :: "char \<Rightarrow> nat option" where
  "hexval c =
     (let n = (of_char c :: nat) in
      if 48 \<le> n \<and> n \<le> 57 then Some (n - 48)
      else if 97 \<le> n \<and> n \<le> 102 then Some (n - 87)
      else if 65 \<le> n \<and> n \<le> 70 then Some (n - 55)
      else None)"

text \<open>\<^verbatim>\<open>utf8.EncodeRune\<close> for a code point that is not a surrogate.\<close>

definition utf8_encode :: "nat \<Rightarrow> string" where
  "utf8_encode n =
     (if n < 0x80 then [char_of n]
      else if n < 0x800 then [char_of (0xC0 + n div 64), char_of (0x80 + n mod 64)]
      else if n < 0x10000 then
        [char_of (0xE0 + n div 4096), char_of (0x80 + (n div 64) mod 64),
         char_of (0x80 + n mod 64)]
      else
        [char_of (0xF0 + n div 262144), char_of (0x80 + (n div 4096) mod 64),
         char_of (0x80 + (n div 64) mod 64), char_of (0x80 + n mod 64)])"

definition is_surrogate :: "nat \<Rightarrow> bool" where
  "is_surrogate n \<longleftrightarrow> 0xD800 \<le> n \<and> n < 0xE000"

definition pairs_up :: "nat \<Rightarrow> nat \<Rightarrow> bool" where
  "pairs_up hi lo \<longleftrightarrow> 0xD800 \<le> hi \<and> hi < 0xDC00 \<and> 0xDC00 \<le> lo \<and> lo < 0xE000"

definition replacement_char :: nat where
  "replacement_char = 0xFFFD"

text \<open>The escapes of the decoder's \<^verbatim>\<open>unquote\<close>: an escape that is a surrogate is
  combined with an escape right behind it when the two form a pair, and is U+FFFD
  otherwise.\<close>

fun decode_units :: "strunit list \<Rightarrow> string" where
  "decode_units [] = []"
| "decode_units (Byte c # us) = c # decode_units us"
| "decode_units (Unit16 a # Unit16 b # us) =
     (if pairs_up a b
      then utf8_encode (0x10000 + (a - 0xD800) * 1024 + (b - 0xDC00)) @ decode_units us
      else utf8_encode (if is_surrogate a then replacement_char else a)
             @ decode_units (Unit16 b # us))"
| "decode_units (Unit16 a # us) =
     utf8_encode (if is_surrogate a then replacement_char else a) @ decode_units us"

text \<open>The result is then made well-formed UTF-8, as \<^verbatim>\<open>unquote\<close> does with
  \<^verbatim>\<open>utf8.DecodeRune\<close>: a byte that does not begin a well-formed encoding (a stray
  continuation byte, an overlong or truncated form, an encoded surrogate, a value
  above U+10FFFF) becomes U+FFFD, and a well-formed encoding is copied. The library
  does this in the loop that decodes the escapes; an escape decodes to an ASCII byte
  or to a whole encoding, so that the bytes around it are judged the same way in one
  pass over the decoded bytes. The first argument of \<open>utf8_coerce\<close> is the number of
  bytes of the current encoding that are still to be copied.\<close>

fun continuation :: "nat \<Rightarrow> string \<Rightarrow> bool" where
  "continuation 0 cs = True"
| "continuation (Suc n) [] = False"
| "continuation (Suc n) (c # cs) =
     (0x80 \<le> (of_char c :: int) \<and> (of_char c :: int) \<le> 0xBF \<and> continuation n cs)"

text \<open>The byte after the first one lies in the range that the first one accepts, and
  \<open>n\<close> continuation bytes follow it.\<close>

definition accepted :: "int \<Rightarrow> int \<Rightarrow> nat \<Rightarrow> string \<Rightarrow> bool" where
  "accepted lo hi n cs =
     (case cs of
        [] \<Rightarrow> False
      | c # r \<Rightarrow> lo \<le> of_char c \<and> of_char c \<le> hi \<and> continuation n r)"

definition rune_length :: "char \<Rightarrow> string \<Rightarrow> nat option" where
  "rune_length c cs =
     (let b = (of_char c :: int) in
      if b < 0x80 then Some 1
      else if 0xC2 \<le> b \<and> b \<le> 0xDF then (if accepted 0x80 0xBF 0 cs then Some 2 else None)
      else if b = 0xE0 then (if accepted 0xA0 0xBF 1 cs then Some 3 else None)
      else if b = 0xED then (if accepted 0x80 0x9F 1 cs then Some 3 else None)
      else if 0xE1 \<le> b \<and> b \<le> 0xEF then (if accepted 0x80 0xBF 1 cs then Some 3 else None)
      else if b = 0xF0 then (if accepted 0x90 0xBF 2 cs then Some 4 else None)
      else if 0xF1 \<le> b \<and> b \<le> 0xF3 then (if accepted 0x80 0xBF 2 cs then Some 4 else None)
      else if b = 0xF4 then (if accepted 0x80 0x8F 2 cs then Some 4 else None)
      else None)"

fun utf8_coerce :: "nat \<Rightarrow> string \<Rightarrow> string" where
  "utf8_coerce k [] = []"
| "utf8_coerce k (c # cs) =
     (if 0 < k then c # utf8_coerce (k - 1) cs
      else (case rune_length c cs of
              None \<Rightarrow> utf8_encode replacement_char @ utf8_coerce 0 cs
            | Some n \<Rightarrow> c # utf8_coerce (n - 1) cs))"

definition unquote :: "strunit list \<Rightarrow> string" where
  "unquote us = utf8_coerce 0 (decode_units us)"

definition lex_idle :: "char \<Rightarrow> (token list \<times> lexstate) option" where
  \<open>lex_idle c =
     (if is_space c then Some ([], LIdle)
      else if c = CHR ''{'' then Some ([TLBrace], LIdle)
      else if c = CHR ''}'' then Some ([TRBrace], LIdle)
      else if c = CHR ''['' then Some ([TLBracket], LIdle)
      else if c = CHR '']'' then Some ([TRBracket], LIdle)
      else if c = CHR '':'' then Some ([TColon], LIdle)
      else if c = CHR '','' then Some ([TComma], LIdle)
      else if c = CHR 0x22 then Some ([], LString [])
      else if c = CHR ''-'' then Some ([], LNum NMinus [c])
      else if c = CHR ''0'' then Some ([], LNum NZero [c])
      else if is_digit19 c then Some ([], LNum NInt [c])
      else if c = CHR ''t'' then Some ([], LLiteral ''rue'' TTrue)
      else if c = CHR ''f'' then Some ([], LLiteral ''alse'' TFalse)
      else if c = CHR ''n'' then Some ([], LLiteral ''ull'' TNull)
      else None)\<close>

definition lex_escape :: "char \<Rightarrow> char option" where
  "lex_escape c =
     (if c = CHR 0x22 then Some (CHR 0x22)
      else if c = CHR 0x5C then Some (CHR 0x5C)
      else if c = CHR ''/'' then Some (CHR ''/'')
      else if c = CHR ''b'' then Some (CHR 0x08)
      else if c = CHR ''f'' then Some (CHR 0x0C)
      else if c = CHR ''n'' then Some (CHR 0x0A)
      else if c = CHR ''r'' then Some (CHR 0x0D)
      else if c = CHR ''t'' then Some (CHR 0x09)
      else None)"

fun hex4 :: "nat list \<Rightarrow> nat" where
  "hex4 [] = 0"
| "hex4 (d # ds) = d + 16 * hex4 ds"

fun lex_step :: "lexstate \<Rightarrow> char \<Rightarrow> (token list \<times> lexstate) option" where
  "lex_step LIdle c = lex_idle c"
| "lex_step (LString acc) c =
     (if c = CHR 0x22 then Some ([TString (unquote (rev acc))], LIdle)
      else if c = CHR 0x5C then Some ([], LEscape acc)
      else if (of_char c :: nat) < 0x20 then None
      else Some ([], LString (Byte c # acc)))"
| "lex_step (LEscape acc) c =
     (if c = CHR ''u'' then Some ([], LUnicode acc [])
      else (case lex_escape c of
              None \<Rightarrow> None
            | Some b \<Rightarrow> Some ([], LString (Byte b # acc))))"
| "lex_step (LUnicode acc ds) c =
     (case hexval c of
        None \<Rightarrow> None
      | Some d \<Rightarrow>
          if length ds = 3 then Some ([], LString (Unit16 (hex4 (d # ds)) # acc))
          else Some ([], LUnicode acc (d # ds)))"
| "lex_step (LNum ns acc) c =
     (case num_step ns c of
        Some ns' \<Rightarrow> Some ([], LNum ns' (c # acc))
      | None \<Rightarrow>
          if num_complete ns then
            (case lex_idle c of
               None \<Rightarrow> None
             | Some (ts, st) \<Rightarrow> Some (TNumber (rev acc) # ts, st))
          else None)"
| "lex_step (LLiteral [] tok) c = None"
| "lex_step (LLiteral (r # rs) tok) c =
     (if c \<noteq> r then None
      else if rs = [] then Some ([tok], LIdle)
      else Some ([], LLiteral rs tok))"

fun lex_end :: "lexstate \<Rightarrow> token list option" where
  "lex_end LIdle = Some []"
| "lex_end (LNum ns acc) = (if num_complete ns then Some [TNumber (rev acc)] else None)"
| "lex_end _ = None"

fun lex :: "lexstate \<Rightarrow> string \<Rightarrow> token list option" where
  "lex st [] = lex_end st"
| "lex st (c # cs) =
     (case lex_step st c of
        None \<Rightarrow> None
      | Some (ts, st') \<Rightarrow>
          (case lex st' cs of None \<Rightarrow> None | Some r \<Rightarrow> Some (ts @ r)))"

subsection \<open>Parsing\<close>

text \<open>The grammar is checked with an explicit stack of the containers that are
  open, as the decoder's own scanner does; the run is one pass over the tokens.\<close>

datatype frame = FArray "json list" | FObject "(string \<times> json) list" string

datatype pmode = PValue | PFirstElem | PFirstKey | PKey | PColon | PNext | PDone json

fun deliver :: "json \<Rightarrow> frame list \<Rightarrow> pmode \<times> frame list" where
  "deliver v [] = (PDone v, [])"
| "deliver v (FArray es # st) = (PNext, FArray (v # es) # st)"
| "deliver v (FObject ms k # st) = (PNext, FObject ((k, v) # ms) k # st)"

fun scalar_of :: "token \<Rightarrow> json option" where
  "scalar_of (TString s) = Some (JString s)"
| "scalar_of (TNumber s) = Some (JNumber s)"
| "scalar_of TTrue = Some (JBool True)"
| "scalar_of TFalse = Some (JBool False)"
| "scalar_of TNull = Some JNull"
| "scalar_of _ = None"

text \<open>The scanner refuses to open a container inside \<^verbatim>\<open>maxNestingDepth\<close> open
  ones.\<close>

definition maxNestingDepth :: int where
  "maxNestingDepth = 10000"

fun begin_value :: "token \<Rightarrow> frame list \<Rightarrow> (pmode \<times> frame list) option" where
  "begin_value TLBracket st =
     (if int (length st) < maxNestingDepth then Some (PFirstElem, FArray [] # st) else None)"
| "begin_value TLBrace st =
     (if int (length st) < maxNestingDepth then Some (PFirstKey, FObject [] [] # st) else None)"
| "begin_value t st = map_option (\<lambda>v. deliver v st) (scalar_of t)"

fun close_array :: "frame list \<Rightarrow> (pmode \<times> frame list) option" where
  "close_array (FArray es # st) = Some (deliver (JArray (rev es)) st)"
| "close_array _ = None"

fun close_object :: "frame list \<Rightarrow> (pmode \<times> frame list) option" where
  "close_object (FObject ms k # st) = Some (deliver (JObject (rev ms)) st)"
| "close_object _ = None"

fun read_key :: "token \<Rightarrow> frame list \<Rightarrow> (pmode \<times> frame list) option" where
  "read_key (TString k) (FObject ms k0 # st) = Some (PColon, FObject ms k # st)"
| "read_key _ _ = None"

fun after_comma :: "frame list \<Rightarrow> (pmode \<times> frame list) option" where
  "after_comma (FArray es # st) = Some (PValue, FArray es # st)"
| "after_comma (FObject ms k # st) = Some (PKey, FObject ms k # st)"
| "after_comma [] = None"

fun parse_step :: "pmode \<Rightarrow> frame list \<Rightarrow> token \<Rightarrow> (pmode \<times> frame list) option" where
  "parse_step PValue st t = begin_value t st"
| "parse_step PFirstElem st t = (if t = TRBracket then close_array st else begin_value t st)"
| "parse_step PFirstKey st t = (if t = TRBrace then close_object st else read_key t st)"
| "parse_step PKey st t = read_key t st"
| "parse_step PColon st t = (if t = TColon then Some (PValue, st) else None)"
| "parse_step PNext st t =
     (if t = TComma then after_comma st
      else if t = TRBracket then close_array st
      else if t = TRBrace then close_object st
      else None)"
| "parse_step (PDone v) st t = None"

fun parse_tokens :: "pmode \<Rightarrow> frame list \<Rightarrow> token list \<Rightarrow> json option" where
  "parse_tokens m st [] = (case m of PDone v \<Rightarrow> Some v | _ \<Rightarrow> None)"
| "parse_tokens m st (t # ts) =
     (case parse_step m st t of
        None \<Rightarrow> None
      | Some (m', st') \<Rightarrow> parse_tokens m' st' ts)"

text \<open>The syntax check and tree of \<^verbatim>\<open>json.Unmarshal\<close>: \<open>None\<close> is its
  \<^verbatim>\<open>SyntaxError\<close>.\<close>

definition json_parse :: "string \<Rightarrow> json option" where
  "json_parse s =
     (case lex LIdle s of None \<Rightarrow> None | Some ts \<Rightarrow> parse_tokens PValue [] ts)"

subsection \<open>Objects as maps\<close>

text \<open>Every decoder that targets a Go map (\<^verbatim>\<open>interface{}\<close>, the merge primitive's
  documents) keeps one value per key, the last one of the text, and the encoder writes
  a map with its keys sorted. A document in that form is an association list with
  distinct, ascending keys.\<close>

fun obj_get :: "(string \<times> json) list \<Rightarrow> string \<Rightarrow> json option" where
  "obj_get [] k = None"
| "obj_get ((k', v) # ms) k = (if k = k' then Some v else obj_get ms k)"

fun obj_set :: "string \<Rightarrow> json \<Rightarrow> (string \<times> json) list \<Rightarrow> (string \<times> json) list" where
  "obj_set k v [] = [(k, v)]"
| "obj_set k v ((k', v') # ms) =
     (if k = k' then (k, v) # ms
      else if k < k' then (k, v) # (k', v') # ms
      else (k', v') # obj_set k v ms)"

fun obj_del :: "string \<Rightarrow> (string \<times> json) list \<Rightarrow> (string \<times> json) list" where
  "obj_del k [] = []"
| "obj_del k ((k', v') # ms) = (if k = k' then obj_del k ms else (k', v') # obj_del k ms)"

fun obj_of_members :: "(string \<times> json) list \<Rightarrow> (string \<times> json) list \<Rightarrow> (string \<times> json) list" where
  "obj_of_members acc [] = acc"
| "obj_of_members acc ((k, v) # ms) = obj_of_members (obj_set k v acc) ms"

fun canon :: "json \<Rightarrow> json" where
  "canon (JArray xs) = JArray (map canon xs)"
| "canon (JObject ms) = JObject (obj_of_members [] (map (\<lambda>kv. (fst kv, canon (snd kv))) ms))"
| "canon v = v"

section \<open>The merge-patch primitive\<close>

text \<open>
  Modelled from the spec: \<^verbatim>\<open>jsonpatch.MergePatch\<close> of the imported package
  \<^verbatim>\<open>github.com/evanphx/json-patch\<close> is not part of the repository. The specification
  takes it as a primitive obeying RFC 7396: object fields merge recursively key by
  key, every other value (arrays included) replaces wholesale, and \<open>null\<close> deletes a
  key. A member the target lacks is merged as if the target held a non-object there.
\<close>

fun merge_patch :: "json \<Rightarrow> json \<Rightarrow> json"
  and merge_members :: "(string \<times> json) list \<Rightarrow> (string \<times> json) list \<Rightarrow> (string \<times> json) list"
where
  "merge_patch target (JObject pms) =
     JObject (merge_members (case target of JObject tms \<Rightarrow> tms | _ \<Rightarrow> []) pms)"
| "merge_patch target JNull = JNull"
| "merge_patch target (JBool b) = JBool b"
| "merge_patch target (JNumber n) = JNumber n"
| "merge_patch target (JString s) = JString s"
| "merge_patch target (JArray xs) = JArray xs"
| "merge_members tms [] = tms"
| "merge_members tms ((k, pv) # pms) =
     merge_members
       (if pv = JNull then obj_del k tms
        else obj_set k (merge_patch (case obj_get tms k of Some tv \<Rightarrow> tv | None \<Rightarrow> JNull) pv) tms)
       pms"

text \<open>
  A byte slice that holds JSON is either a text that still has to be decoded
  (standard input, the cleanup patch built with \<^verbatim>\<open>fmt.Sprintf\<close>, the rendered
  template) or bytes that are known to encode a value: the output of the primitive,
  which it marshals from a value, and a \<^verbatim>\<open>json.RawMessage\<close> cut out of a document
  that was decoded. The second kind is kept as the value it encodes; the only readers
  of such bytes in the program are the primitive and the downstream plugin.
\<close>

datatype document = Raw string | Enc json

fun decode_document :: "document \<Rightarrow> json option" where
  "decode_document (Raw s) = map_option canon (json_parse s)"
| "decode_document (Enc v) = Some v"

definition ErrBadJSONDoc :: string where
  "ErrBadJSONDoc = ''Invalid JSON Document''"

definition ErrBadJSONPatch :: string where
  "ErrBadJSONPatch = ''Invalid JSON Patch''"

definition MergePatch :: "document \<Rightarrow> document \<Rightarrow> string + document" where
  "MergePatch docData patchData =
     (case decode_document docData of
        None \<Rightarrow> Inl ErrBadJSONDoc
      | Some doc \<Rightarrow>
          (case decode_document patchData of
             None \<Rightarrow> Inl ErrBadJSONPatch
           | Some patch \<Rightarrow> Inr (Enc (merge_patch doc patch))))"

section \<open>Errors\<close>

text \<open>\<^verbatim>\<open>types.Error\<close> of the CNI library: a code, a message and details;
  \<^verbatim>\<open>Error()\<close> prints the message and, when there are details, a semicolon and the
  details. The two codes below 100 are the library's, the other two are gator's own
  constants.\<close>

record Error =
  Code :: nat
  Msg :: string
  Details :: string

definition NewError :: "nat \<Rightarrow> string \<Rightarrow> string \<Rightarrow> Error" where
  "NewError c m d = \<lparr>Code = c, Msg = m, Details = d\<rparr>"

definition Error_text :: "Error \<Rightarrow> string" where
  "Error_text e = Msg e @ (if Details e \<noteq> [] then ''; '' @ Details e else [])"

definition ErrIOFailure :: nat where
  "ErrIOFailure = 5"

definition ErrDecodingFailure :: nat where
  "ErrDecodingFailure = 6"

definition ErrInvalidPatchTemplate :: nat where
  "ErrInvalidPatchTemplate = 100"

definition ErrMergeJSONFailed :: nat where
  "ErrMergeJSONFailed = 101"

section \<open>The plugin configuration\<close>

text \<open>
  A slice of strings, \<^verbatim>\<open>[]string\<close>: its elements, and behind them the strings that
  an earlier, longer content has left in its backing array. Every other slot of the
  backing array holds the empty string, because the array is allocated zeroed and a
  slot is written only when an element is decoded into it. The nil slice has neither
  elements nor an array.
\<close>

datatype slice = Slice (elems: "string list") (spare: "string list")

definition nil_slice :: slice where
  "nil_slice = Slice [] []"

record PluginConfig =
  Config :: "document option"
  Patch :: string
  Plugin :: string
  Skip :: slice
  stdin :: string
  downstreamConfig :: document

subsection \<open>Decoding into the struct\<close>

text \<open>
  \<^verbatim>\<open>json.Unmarshal(stdin, conf)\<close>. The struct has no field tags, so a member is
  matched with a field by its name under Unicode simple case folding; the members are
  visited in the order of the text, each decoded into the field as the members before
  it have left it; a member that matches no exported field is left alone. \<open>null\<close>
  leaves a string as it is and makes a pointer or slice nil. A value of the wrong
  shape is an \<^verbatim>\<open>UnmarshalTypeError\<close>; the decoder goes on and returns the first such
  error at the end, so the result is that error. (The texts of the errors of the
  struct decoder are placeholders for whatever the library prints.)
\<close>

definition to_lower :: "char \<Rightarrow> char" where
  "to_lower c =
     (case map_of (zip ''ABCDEFGHIJKLMNOPQRSTUVWXYZ'' ''abcdefghijklmnopqrstuvwxyz'') c of
        None \<Rightarrow> c
      | Some l \<Rightarrow> l)"

text \<open>The letters of the four field names fold with their other case and with nothing
  else, but for \<open>s\<close>, which also folds with U+017F (the long s, bytes \<^verbatim>\<open>C5 BF\<close>),
  and \<open>k\<close>, which also folds with U+212A (the Kelvin sign, bytes \<^verbatim>\<open>E2 84 AA\<close>).\<close>

definition long_s :: string where
  "long_s = [CHR 0xC5, CHR 0xBF]"

definition kelvin_sign :: string where
  "kelvin_sign = [CHR 0xE2, CHR 0x84, CHR 0xAA]"

fun fold_name :: "string \<Rightarrow> string" where
  "fold_name (a # b # c # cs) =
     (if [a, b, c] = kelvin_sign then CHR ''k'' # fold_name cs
      else if [a, b] = long_s then CHR ''s'' # fold_name (c # cs)
      else to_lower a # fold_name (b # c # cs))"
| "fold_name [a, b] = (if [a, b] = long_s then ''s'' else [to_lower a, to_lower b])"
| "fold_name [a] = [to_lower a]"
| "fold_name [] = []"

definition equal_fold :: "string \<Rightarrow> string \<Rightarrow> bool" where
  "equal_fold a b \<longleftrightarrow> fold_name a = fold_name b"

fun decode_string :: "string \<Rightarrow> json \<Rightarrow> string option" where
  "decode_string cur JNull = Some cur"
| "decode_string cur (JString s) = Some s"
| "decode_string cur _ = None"

text \<open>An array is decoded into the slice that the field holds: element \<open>i\<close> is
  decoded into slot \<open>i\<close> of the backing array as a string is decoded into a string,
  so that \<open>null\<close> keeps what the slot holds (the first argument of
  \<open>decode_elements\<close> lists the slots that hold something). The length becomes the
  number of elements, and what lies behind it stays in the array. An empty array gives
  a fresh empty slice.\<close>

fun decode_elements :: "string list \<Rightarrow> json list \<Rightarrow> string list option" where
  "decode_elements slots [] = Some []"
| "decode_elements slots (x # xs) =
     (case decode_string (case slots of [] \<Rightarrow> [] | cur # rest \<Rightarrow> cur) x of
        None \<Rightarrow> None
      | Some s \<Rightarrow>
          (case decode_elements (tl slots) xs of None \<Rightarrow> None | Some ss \<Rightarrow> Some (s # ss)))"

fun decode_strings :: "slice \<Rightarrow> json \<Rightarrow> slice option" where
  "decode_strings sl JNull = Some nil_slice"
| "decode_strings sl (JArray xs) =
     (if xs = [] then Some (Slice [] [])
      else (case decode_elements (elems sl @ spare sl) xs of
              None \<Rightarrow> None
            | Some ss \<Rightarrow> Some (Slice ss (drop (length xs) (elems sl @ spare sl)))))"
| "decode_strings sl _ = None"

definition type_error :: "string \<Rightarrow> string" where
  "type_error field = ''json: cannot unmarshal into Go struct field PluginConfig.'' @ field"

definition decode_member :: "string \<Rightarrow> json \<Rightarrow> PluginConfig \<Rightarrow> string + PluginConfig" where
  "decode_member k v conf =
     (if equal_fold k ''Config'' then
        Inr (conf\<lparr>Config := (if v = JNull then None else Some (Enc (canon v)))\<rparr>)
      else if equal_fold k ''Patch'' then
        (case decode_string (Patch conf) v of
           None \<Rightarrow> Inl (type_error ''Patch'')
         | Some s \<Rightarrow> Inr (conf\<lparr>Patch := s\<rparr>))
      else if equal_fold k ''Plugin'' then
        (case decode_string (Plugin conf) v of
           None \<Rightarrow> Inl (type_error ''Plugin'')
         | Some s \<Rightarrow> Inr (conf\<lparr>Plugin := s\<rparr>))
      else if equal_fold k ''Skip'' then
        (case decode_strings (Skip conf) v of
           None \<Rightarrow> Inl (type_error ''Skip'')
         | Some sl \<Rightarrow> Inr (conf\<lparr>Skip := sl\<rparr>))
      else Inr conf)"

fun decode_members :: "(string \<times> json) list \<Rightarrow> PluginConfig \<Rightarrow> string + PluginConfig" where
  "decode_members [] conf = Inr conf"
| "decode_members ((k, v) # ms) conf =
     (case decode_member k v conf of
        Inl e \<Rightarrow> Inl e
      | Inr conf' \<Rightarrow> decode_members ms conf')"

definition syntax_error :: string where
  "syntax_error = ''invalid character''"

fun decode_struct :: "json \<Rightarrow> PluginConfig \<Rightarrow> string + PluginConfig" where
  "decode_struct JNull conf = Inr conf"
| "decode_struct (JObject ms) conf = decode_members ms conf"
| "decode_struct _ conf = Inl (''json: cannot unmarshal into Go value of type main.PluginConfig'')"

definition json_Unmarshal :: "string \<Rightarrow> PluginConfig \<Rightarrow> string + PluginConfig" where
  "json_Unmarshal data conf =
     (case json_parse data of
        None \<Rightarrow> Inl syntax_error
      | Some v \<Rightarrow> decode_struct v conf)"

text \<open>
  \<^verbatim>\<open>json.Unmarshal(stdin, &rawConf)\<close> into a plain interface: the untyped tree,
  objects as maps. Every number of the document, also one under a key that a later
  member overwrites, is converted with \<^verbatim>\<open>strconv.ParseFloat(s, 64)\<close>, and a number
  that is out of range is an \<^verbatim>\<open>UnmarshalTypeError\<close>. A decimal is out of range when
  it rounds to infinity: its magnitude is at least the largest \<^verbatim>\<open>float64\<close>,
  \<^verbatim>\<open>2^1024 - 2^971\<close>, plus half a unit in the last place, \<^verbatim>\<open>2^970\<close>. The
  comparison is made on the exact value of the lexeme
  \<^verbatim>\<open>-? whole (. frac)? ([eE] [+-]? digits)?\<close>: the digits of \<^verbatim>\<open>whole\<close> and
  \<^verbatim>\<open>frac\<close> as one integer, times ten to the exponent less the number of digits of
  \<^verbatim>\<open>frac\<close>. (The library keeps 800 significant digits and an exponent of five
  digits; a longer lexeme is compared here by its exact value all the same.)
\<close>

definition digits_value :: "string \<Rightarrow> int" where
  "digits_value ds = foldl (\<lambda>n c. 10 * n + (of_char c - 48)) 0 ds"

definition float64_bound :: int where
  "float64_bound = 2 ^ 1024 - 2 ^ 970"

definition out_of_range :: "string \<Rightarrow> bool" where
  "out_of_range lexeme =
     (let s = (case lexeme of [] \<Rightarrow> [] | c # cs \<Rightarrow> if c = CHR ''-'' then cs else lexeme);
          mantissa = takeWhile (\<lambda>c. \<not> is_exp c) s;
          exponent = drop 1 (dropWhile (\<lambda>c. \<not> is_exp c) s);
          whole = takeWhile (\<lambda>c. c \<noteq> CHR ''.'') mantissa;
          frac = drop 1 (dropWhile (\<lambda>c. c \<noteq> CHR ''.'') mantissa);
          m = digits_value (whole @ frac);
          e = (case exponent of
                 [] \<Rightarrow> 0
               | c # ds \<Rightarrow>
                   if c = CHR ''-'' then - digits_value ds
                   else if c = CHR ''+'' then digits_value ds
                   else digits_value exponent) - int (length frac)
      in if 0 \<le> e then float64_bound \<le> m * 10 ^ nat e
         else float64_bound * 10 ^ nat (- e) \<le> m)"

fun numbers_of :: "json \<Rightarrow> string list" where
  "numbers_of (JNumber n) = [n]"
| "numbers_of (JArray xs) = concat (map numbers_of xs)"
| "numbers_of (JObject ms) = concat (map (\<lambda>kv. numbers_of (snd kv)) ms)"
| "numbers_of v = []"

definition range_error :: "string \<Rightarrow> string" where
  "range_error n = ''json: cannot unmarshal number '' @ n @ '' into Go value of type float64''"

definition json_Unmarshal_interface :: "string \<Rightarrow> string + json" where
  "json_Unmarshal_interface data =
     (case json_parse data of
        None \<Rightarrow> Inl syntax_error
      | Some v \<Rightarrow>
          (case filter out_of_range (numbers_of v) of
             [] \<Rightarrow> Inr (canon v)
           | n # ns \<Rightarrow> Inl (range_error n)))"

section \<open>The template engine\<close>

text \<open>
  \<^verbatim>\<open>html/template\<close> with the sprig functions is an external collaborator and a
  parameter of the model: \<open>tmpl_Parse\<close> gives the error of
  \<^verbatim>\<open>template.New(...).Funcs(...).Parse(text)\<close> if there is one, \<open>tmpl_Execute\<close> the
  error or the bytes that \<^verbatim>\<open>Execute\<close> wrote for the parsed text and the data.
\<close>

record engine =
  tmpl_Parse :: "string \<Rightarrow> string option"
  tmpl_Execute :: "string \<Rightarrow> json \<Rightarrow> string + string"

section \<open>Composing the downstream configuration\<close>

definition cleanup_patch :: "string \<Rightarrow> string" where
  \<open>cleanup_patch plugin =
     ''{"type": "'' @ plugin @ ''", "plugin": null, "config": null, "patch": null}''\<close>

definition generateDownstream :: "engine \<Rightarrow> PluginConfig \<Rightarrow> Error + document" where
  "generateDownstream eng conf =
     (case tmpl_Parse eng (Patch conf) of
        Some e \<Rightarrow>
          Inl (NewError ErrDecodingFailure ''failed to parse JSON merge patch template'' e)
      | None \<Rightarrow>
     (case json_Unmarshal_interface (stdin conf) of
        Inl e \<Rightarrow>
          Inl (NewError ErrDecodingFailure ''failed to parse stdin to plain interface'' e)
      | Inr rawConf \<Rightarrow>
     (case tmpl_Execute eng (Patch conf) rawConf of
        Inl e \<Rightarrow>
          Inl (NewError ErrInvalidPatchTemplate
                 ''failed to execute template for JSON merge patch'' e)
      | Inr merger \<Rightarrow>
     (let cleanup = cleanup_patch (Plugin conf) in
      case MergePatch (Raw (stdin conf)) (Raw cleanup) of
        Inl e \<Rightarrow>
          Inl (NewError ErrMergeJSONFailed ''failed to clean up undelegated config items'' e)
      | Inr cleaned \<Rightarrow>
     (let downstreamConf = (case Config conf of None \<Rightarrow> Raw ''{}'' | Some c \<Rightarrow> c);
          patch = (if length merger = 0 then Raw ''{}'' else Raw merger)
      in
      case MergePatch downstreamConf patch of
        Inl e \<Rightarrow>
          Inl (NewError ErrMergeJSONFailed ''failed to merge patch with downstream config'' e)
      | Inr downstream \<Rightarrow>
     (case MergePatch cleaned downstream of
        Inl e \<Rightarrow>
          Inl (NewError ErrMergeJSONFailed
                 ''failed to merge downstream config with original'' e)
      | Inr finalConfig \<Rightarrow> Inr finalConfig))))))"

section \<open>The process\<close>

text \<open>What the process leaves behind: the bytes on its two output streams and its
  exit code, which is the low eight bits of the argument of \<^verbatim>\<open>os.Exit\<close>. A
  function that may call \<^verbatim>\<open>os.Exit\<close> either ends the process or returns.\<close>

record outcome =
  to_stdout :: string
  to_stderr :: string
  exit_code :: int

datatype 'a effect = Exit outcome | Return 'a

definition os_Exit :: "int \<Rightarrow> int" where
  "os_Exit code = code mod 256"

definition os_Getenv :: "(string \<times> string) list \<Rightarrow> string \<Rightarrow> string" where
  "os_Getenv env k = (case map_of env k of None \<Rightarrow> [] | Some v \<Rightarrow> v)"

definition os_Environ :: "(string \<times> string) list \<Rightarrow> string list" where
  "os_Environ env = map (\<lambda>kv. fst kv @ ''='' @ snd kv) env"

definition slices_Contains :: "string list \<Rightarrow> string \<Rightarrow> bool" where
  "slices_Contains xs x \<longleftrightarrow> x \<in> set xs"

definition handleError :: "Error \<Rightarrow> outcome" where
  "handleError e =
     \<lparr>to_stdout = [], to_stderr = Error_text e, exit_code = os_Exit (int (Code e))\<rparr>"

text \<open>\<^verbatim>\<open>&PluginConfig{stdin: stdin}\<close>: every other field at its zero value.\<close>

definition new_PluginConfig :: "string \<Rightarrow> PluginConfig" where
  "new_PluginConfig input =
     \<lparr>Config = None, Patch = [], Plugin = [], Skip = nil_slice, stdin = input,
      downstreamConfig = Raw []\<rparr>"

definition parseConf ::
  "engine \<Rightarrow> (string \<times> string) list \<Rightarrow> string \<Rightarrow> (PluginConfig option \<times> Error option) effect"
where
  "parseConf eng env input =
     (case json_Unmarshal input (new_PluginConfig input) of
        Inl e \<Rightarrow>
          Return (None, Some (NewError ErrDecodingFailure ''failed to parse JSON config'' e))
      | Inr conf \<Rightarrow>
          if slices_Contains (elems (Skip conf)) (os_Getenv env ''CNI_COMMAND'')
          then Exit \<lparr>to_stdout = input, to_stderr = [], exit_code = os_Exit 0\<rparr>
          else
            (case generateDownstream eng conf of
               Inl e \<Rightarrow> Return (Some conf, Some e)
             | Inr d \<Rightarrow> Return (Some (conf\<lparr>downstreamConfig := d\<rparr>), None)))"

section \<open>Resolving the plugin\<close>

text \<open>\<^verbatim>\<open>strings.Split(s, ":")\<close>: the pieces between the separators, empty pieces
  included; the empty string gives one empty piece.\<close>

fun strings_Split :: "string \<Rightarrow> char \<Rightarrow> string list" where
  "strings_Split [] sep = [[]]"
| "strings_Split (c # cs) sep =
     (if c = sep then [] # strings_Split cs sep
      else (case strings_Split cs sep of
              [] \<Rightarrow> [[c]]
            | w # ws \<Rightarrow> (c # w) # ws))"

fun strings_Join :: "string list \<Rightarrow> string \<Rightarrow> string" where
  "strings_Join [] sep = []"
| "strings_Join [x] sep = x"
| "strings_Join (x # y # ys) sep = x @ sep @ strings_Join (y # ys) sep"

text \<open>\<^verbatim>\<open>filepath.Clean\<close> on a system whose separator is the slash: empty and
  \<^verbatim>\<open>.\<close> elements go, an inner \<^verbatim>\<open>..\<close> goes with the element before it, a
  \<^verbatim>\<open>..\<close> at the root goes, and the empty result is \<^verbatim>\<open>.\<close>. The second argument
  is the stack of the elements kept so far, the last one first.\<close>

fun clean_elements :: "bool \<Rightarrow> string list \<Rightarrow> string list \<Rightarrow> string list" where
  "clean_elements rooted out [] = rev out"
| "clean_elements rooted out (e # es) =
     (if e = [] \<or> e = ''.'' then clean_elements rooted out es
      else if e = ''..'' then
        (case out of
           [] \<Rightarrow> if rooted then clean_elements rooted [] es
                 else clean_elements rooted [e] es
         | t # ts \<Rightarrow> if t = ''..'' then clean_elements rooted (e # out) es
                     else clean_elements rooted ts es)
      else clean_elements rooted (e # out) es)"

definition filepath_Clean :: "string \<Rightarrow> string" where
  "filepath_Clean path =
     (case path of
        [] \<Rightarrow> ''.''
      | c # cs \<Rightarrow>
          (let rooted = (c = CHR ''/'');
               body = strings_Join (clean_elements rooted [] (strings_Split path CHR ''/'')) ''/''
           in if rooted then CHR ''/'' # body
              else if body = [] then ''.'' else body))"

text \<open>\<^verbatim>\<open>filepath.Join\<close>: the elements from the first non-empty one on, joined by
  slashes and cleaned; the empty string when all are empty.\<close>

fun filepath_Join :: "string list \<Rightarrow> string" where
  "filepath_Join [] = []"
| "filepath_Join (e # es) =
     (if e \<noteq> [] then filepath_Clean (strings_Join (e # es) ''/'') else filepath_Join es)"

text \<open>What \<^verbatim>\<open>os.Open\<close> followed by \<^verbatim>\<open>Stat\<close> finds at a path: the open fails, the
  stat fails, or the file has a mode. The file system is a parameter of the model.\<close>

datatype fentry = OpenError | StatError | FileMode "32 word"

text \<open>The three execute bits, octal \<^verbatim>\<open>0111\<close>.\<close>

definition exec_bits :: "32 word" where
  "exec_bits = 0x49"

text \<open>The loop of \<^verbatim>\<open>getPluginPath\<close> over the directories.\<close>

fun search_paths :: "(string \<Rightarrow> fentry) \<Rightarrow> string \<Rightarrow> string list \<Rightarrow> string option" where
  "search_paths fs plugin [] = None"
| "search_paths fs plugin (p # ps) =
     (let fullPath = filepath_Join [p, plugin] in
      case fs fullPath of
        OpenError \<Rightarrow> search_paths fs plugin ps
      | StatError \<Rightarrow> search_paths fs plugin ps
      | FileMode m \<Rightarrow>
          if m AND exec_bits \<noteq> 0 then Some fullPath else search_paths fs plugin ps)"

definition cniPaths_of :: "(string \<times> string) list \<Rightarrow> string list" where
  "cniPaths_of env =
     (let cniPathVar = os_Getenv env ''CNI_PATH'' in
      if cniPathVar \<noteq> [] then [] @ strings_Split cniPathVar CHR '':''
      else [''/opt/cni/bin''])"

text \<open>\<^verbatim>\<open>fmt.Sprintf("%v", xs)\<close> for a slice of strings.\<close>

definition fmt_v :: "string list \<Rightarrow> string" where
  "fmt_v xs = ''['' @ strings_Join xs '' '' @ '']''"

definition getPluginPath ::
  "(string \<times> string) list \<Rightarrow> (string \<Rightarrow> fentry) \<Rightarrow> string \<Rightarrow> Error + string"
where
  "getPluginPath env fs plugin =
     (let cniPaths = cniPaths_of env in
      case search_paths fs plugin cniPaths of
        Some fullPath \<Rightarrow> Inr fullPath
      | None \<Rightarrow>
          Inl (NewError ErrMergeJSONFailed
                 (''cni executable not found in CNI_PATH: '' @ plugin)
                 (''checked: '' @ fmt_v cniPaths)))"

section \<open>Delegating\<close>

text \<open>What \<^verbatim>\<open>cmd.Run()\<close> returns: nothing, an \<^verbatim>\<open>*exec.ExitError\<close> with what
  \<^verbatim>\<open>ExitCode()\<close> gives for a process that ran (its exit code, or -1 when a signal
  ended it), or another error (the process could not be started, or its streams could
  not be copied). The two buffers hold what the process wrote. The
  operating system's process facility is a parameter of the model.\<close>

datatype run_error = RunOk | ExitError int | OtherError string

record process =
  proc_stdout :: string
  proc_stderr :: string
  proc_err :: run_error

definition delegate ::
  "(string \<Rightarrow> string list \<Rightarrow> document \<Rightarrow> process) \<Rightarrow> string \<Rightarrow> document \<Rightarrow> string list
     \<Rightarrow> string \<times> string \<times> int"
where
  "delegate run pluginPath input env =
     (let p = run pluginPath env input;
          exitcode = (case proc_err p of ExitError c \<Rightarrow> c | _ \<Rightarrow> 0)
      in (proc_stdout p, proc_stderr p, exitcode))"

section \<open>The program\<close>

record world =
  os_Args :: "string list"
  os_Stdin :: "string + string"
  os_env :: "(string \<times> string) list"
  templates :: engine
  files :: "string \<Rightarrow> fentry"
  exec_Run :: "string \<Rightarrow> string list \<Rightarrow> document \<Rightarrow> process"

definition Version :: string where
  "Version = ''v0.0.1''"

text \<open>The invocation asks for the version only,
  \<^verbatim>\<open>len(os.Args) > 1 && os.Args[1] == "--version"\<close>: the one case in which
  \<^verbatim>\<open>main\<close> does not read standard input.\<close>

definition version_flag :: "world \<Rightarrow> bool" where
  "version_flag w \<longleftrightarrow> length (os_Args w) > 1 \<and> os_Args w ! 1 = ''--version''"

text \<open>\<^verbatim>\<open>main\<close>. \<open>os_Stdin\<close> is what \<^verbatim>\<open>io.ReadAll(os.Stdin)\<close> returns: \<open>Inl\<close> its
  error, \<open>Inr\<close> the bytes. \<^verbatim>\<open>parseConf\<close> never returns a nil configuration with a nil
  error; the program would dereference nil there, which is the last case.\<close>

definition nil_dereference :: outcome where
  "nil_dereference =
     \<lparr>to_stdout = [], to_stderr = ''panic: runtime error: invalid memory address or nil pointer dereference'',
      exit_code = 2\<rparr>"

definition main :: "world \<Rightarrow> outcome" where
  "main w =
     (if version_flag w
      then \<lparr>to_stdout = ''CNI gator plugin '' @ Version @ [CHR 0x0A], to_stderr = [],
            exit_code = os_Exit 0\<rparr>
      else
        (case os_Stdin w of
           Inl ioerr \<Rightarrow> handleError (NewError ErrIOFailure ''failed to read stdin'' ioerr)
         | Inr input \<Rightarrow>
        (case parseConf (templates w) (os_env w) input of
           Exit out \<Rightarrow> out
         | Return (_, Some e) \<Rightarrow> handleError e
         | Return (None, None) \<Rightarrow> nil_dereference
         | Return (Some conf, None) \<Rightarrow>
        (case getPluginPath (os_env w) (files w) (Plugin conf) of
           Inl e \<Rightarrow> handleError e
         | Inr pluginPath \<Rightarrow>
        (case delegate (exec_Run w) pluginPath (downstreamConfig conf) (os_Environ (os_env w)) of
           (out, err, exitcode) \<Rightarrow>
             \<lparr>to_stdout = out, to_stderr = err, exit_code = os_Exit exitcode\<rparr>)))))"

section \<open>The earlier version of the program\<close>

text \<open>
  \<^verbatim>\<open>src/main.go\<close> holds an earlier version in which decoding and composition are one
  function, \<^verbatim>\<open>prepare\<close>. Its struct has the fields \<^verbatim>\<open>Config\<close>, \<^verbatim>\<open>Patch\<close> and
  \<^verbatim>\<open>Plugin\<close> and keeps the result in \<^verbatim>\<open>finalConfig\<close>; it has no skip list, so a
  member \<^verbatim>\<open>skip\<close> of the envelope matches no field. The record of the newer version
  stands for that struct: \<open>Skip\<close> and \<open>stdin\<close> stay empty and \<open>downstreamConfig\<close> holds
  \<^verbatim>\<open>finalConfig\<close>.
\<close>

definition decode_member_prepare :: "string \<Rightarrow> json \<Rightarrow> PluginConfig \<Rightarrow> string + PluginConfig" where
  "decode_member_prepare k v conf =
     (if equal_fold k ''Config'' then
        Inr (conf\<lparr>Config := (if v = JNull then None else Some (Enc (canon v)))\<rparr>)
      else if equal_fold k ''Patch'' then
        (case decode_string (Patch conf) v of
           None \<Rightarrow> Inl (type_error ''Patch'')
         | Some s \<Rightarrow> Inr (conf\<lparr>Patch := s\<rparr>))
      else if equal_fold k ''Plugin'' then
        (case decode_string (Plugin conf) v of
           None \<Rightarrow> Inl (type_error ''Plugin'')
         | Some s \<Rightarrow> Inr (conf\<lparr>Plugin := s\<rparr>))
      else Inr conf)"

fun decode_members_prepare :: "(string \<times> json) list \<Rightarrow> PluginConfig \<Rightarrow> string + PluginConfig" where
  "decode_members_prepare [] conf = Inr conf"
| "decode_members_prepare ((k, v) # ms) conf =
     (case decode_member_prepare k v conf of
        Inl e \<Rightarrow> Inl e
      | Inr conf' \<Rightarrow> decode_members_prepare ms conf')"

fun decode_struct_prepare :: "json \<Rightarrow> PluginConfig \<Rightarrow> string + PluginConfig" where
  "decode_struct_prepare JNull conf = Inr conf"
| "decode_struct_prepare (JObject ms) conf = decode_members_prepare ms conf"
| "decode_struct_prepare _ conf =
     Inl (''json: cannot unmarshal into Go value of type main.PluginConfig'')"

definition json_Unmarshal_prepare :: "string \<Rightarrow> PluginConfig \<Rightarrow> string + PluginConfig" where
  "json_Unmarshal_prepare data conf =
     (case json_parse data of
        None \<Rightarrow> Inl syntax_error
      | Some v \<Rightarrow> decode_struct_prepare v conf)"

definition prepare :: "engine \<Rightarrow> string \<Rightarrow> Error + PluginConfig" where
  "prepare eng input =
     (case json_Unmarshal_prepare input (new_PluginConfig []) of
        Inl e \<Rightarrow> Inl (NewError ErrDecodingFailure ''failed to parse JSON config'' e)
      | Inr conf \<Rightarrow>
     (case tmpl_Parse eng (Patch conf) of
        Some e \<Rightarrow>
          Inl (NewError ErrDecodingFailure ''failed to parse JSON merge patch template'' e)
      | None \<Rightarrow>
     (case json_Unmarshal_interface input of
        Inl e \<Rightarrow>
          Inl (NewError ErrDecodingFailure ''failed to parse stdin to plain interface'' e)
      | Inr rawConf \<Rightarrow>
     (case tmpl_Execute eng (Patch conf) rawConf of
        Inl e \<Rightarrow>
          Inl (NewError ErrInvalidPatchTemplate
                 ''failed to execute template for JSON merge patch'' e)
      | Inr merger \<Rightarrow>
     (let cleanup = cleanup_patch (Plugin conf) in
      case MergePatch (Raw input) (Raw cleanup) of
        Inl e \<Rightarrow>
          Inl (NewError ErrMergeJSONFailed ''failed to clean up undelegated config items'' e)
      | Inr cleaned \<Rightarrow>
     (let downstreamConf = (case Config conf of None \<Rightarrow> Raw ''{}'' | Some c \<Rightarrow> c);
          patch = (if length merger = 0 then Raw ''{}'' else Raw merger)
      in
      case MergePatch downstreamConf patch of
        Inl e \<Rightarrow>
          Inl (NewError ErrMergeJSONFailed ''failed to merge patch with downstream config'' e)
      | Inr downstream \<Rightarrow>
     (case MergePatch cleaned downstream of
        Inl e \<Rightarrow>
          Inl (NewError ErrMergeJSONFailed
                 ''failed to merge downstream config with original'' e)
      | Inr finalConfig \<Rightarrow> Inr (conf\<lparr>downstreamConfig := finalConfig\<rparr>))))))))"

section \<open>Runs of the scanner and the parser\<close>

text \<open>The state a scan or a parse has reached after a prefix of its input, with the
  tokens written so far. They serve to reason about a text of which only a part is
  known, such as the cleanup patch around an arbitrary plugin name.\<close>

fun lex_run :: "lexstate \<Rightarrow> string \<Rightarrow> (token list \<times> lexstate) option" where
  "lex_run st [] = Some ([], st)"
| "lex_run st (c # cs) =
     (case lex_step st c of
        None \<Rightarrow> None
      | Some (ts, st') \<Rightarrow>
          (case lex_run st' cs of None \<Rightarrow> None | Some (ts', st'') \<Rightarrow> Some (ts @ ts', st'')))"

fun parse_run :: "pmode \<Rightarrow> frame list \<Rightarrow> token list \<Rightarrow> (pmode \<times> frame list) option" where
  "parse_run m st [] = Some (m, st)"
| "parse_run m st (t # ts) =
     (case parse_step m st t of
        None \<Rightarrow> None
      | Some (m', st') \<Rightarrow> parse_run m' st' ts)"

text \<open>A state the scanner can be in: what is left of a literal holds no quote.\<close>

fun lex_inv :: "lexstate \<Rightarrow> bool" where
  "lex_inv (LLiteral r tok) \<longleftrightarrow> CHR 0x22 \<notin> set r"
| "lex_inv _ \<longleftrightarrow> True"

text \<open>A text that can stand between two quotes as it is: no quote, no backslash, no
  control character, and well-formed UTF-8.\<close>

definition unescaped :: "string \<Rightarrow> bool" where
  "unescaped s \<longleftrightarrow>
     list_all (\<lambda>c. c \<noteq> CHR 0x22 \<and> c \<noteq> CHR 0x5C \<and> \<not> (of_char c :: nat) < 0x20) s"

definition plain :: "string \<Rightarrow> bool" where
  "plain s \<longleftrightarrow> unescaped s \<and> utf8_coerce 0 s = s"

text \<open>The two constant parts of the cleanup patch.\<close>

definition cleanup_head :: string where
  \<open>cleanup_head = ''{"type": "''\<close>

definition cleanup_tail :: string where
  \<open>cleanup_tail = ''", "plugin": null, "config": null, "patch": null}''\<close>

definition cleanup_tail_tokens :: "token list" where
  "cleanup_tail_tokens =
     [TComma, TString ''plugin'', TColon, TNull,
      TComma, TString ''config'', TColon, TNull,
      TComma, TString ''patch'', TColon, TNull, TRBrace]"

definition cleanup_members :: "(string \<times> json) list" where
  "cleanup_members = [(''plugin'', JNull), (''config'', JNull), (''patch'', JNull)]"

section \<open>Notions of the specification\<close>

text \<open>A directory entry matches when it can be opened and examined and one of the
  execute bits of its mode is set: the owner's (octal 100, bit 6), the group's (octal
  010, bit 3) or the others' (octal 001, bit 0).\<close>

definition executable_by_someone :: "32 word \<Rightarrow> bool" where
  "executable_by_someone m \<longleftrightarrow> bit m 6 \<or> bit m 3 \<or> bit m 0"

definition matches :: "(string \<Rightarrow> fentry) \<Rightarrow> string \<Rightarrow> bool" where
  "matches fs path =
     (case fs path of FileMode m \<Rightarrow> executable_by_someone m | _ \<Rightarrow> False)"

text \<open>The search path: the colon-separated pieces of \<^verbatim>\<open>CNI_PATH\<close>, or the one
  default directory when the variable is unset or empty.\<close>

definition search_path :: "(string \<times> string) list \<Rightarrow> string list" where
  "search_path env =
     (case map_of env ''CNI_PATH'' of
        None \<Rightarrow> [''/opt/cni/bin'']
      | Some v \<Rightarrow> if v = [] then [''/opt/cni/bin''] else strings_Split v CHR '':'')"

text \<open>An ordinary file or directory name: not empty, not \<^verbatim>\<open>.\<close> or \<^verbatim>\<open>..\<close>, and
  without a slash.\<close>

definition simple_name :: "string \<Rightarrow> bool" where
  "simple_name p \<longleftrightarrow> p \<noteq> [] \<and> p \<noteq> ''.'' \<and> p \<noteq> ''..'' \<and> CHR ''/'' \<notin> set p"

text \<open>The documents of the three stages, in the specification's names: "cleaned" is
  what the cleanup patch leaves of the envelope, "downstream" is the rendered patch
  merged onto \<^verbatim>\<open>config\<close> (or onto \<open>{}\<close>), each as the value it encodes, when its
  merge succeeds.\<close>

definition cleaned_of :: "PluginConfig \<Rightarrow> json option" where
  "cleaned_of conf =
     (case MergePatch (Raw (stdin conf)) (Raw (cleanup_patch (Plugin conf))) of
        Inl e \<Rightarrow> None
      | Inr d \<Rightarrow> decode_document d)"

definition downstream_of :: "engine \<Rightarrow> PluginConfig \<Rightarrow> json option" where
  "downstream_of eng conf =
     (case json_Unmarshal_interface (stdin conf) of
        Inl e \<Rightarrow> None
      | Inr view \<Rightarrow>
     (case tmpl_Execute eng (Patch conf) view of
        Inl e \<Rightarrow> None
      | Inr merger \<Rightarrow>
     (case MergePatch (case Config conf of None \<Rightarrow> Raw ''{}'' | Some c \<Rightarrow> c)
             (if length merger = 0 then Raw ''{}'' else Raw merger) of
        Inl e \<Rightarrow> None
      | Inr d \<Rightarrow> decode_document d)))"

text \<open>The keys of an object are in strictly ascending order, as the encoder writes
  them.\<close>

fun top_ascending :: "json \<Rightarrow> bool" where
  "top_ascending (JObject ms) \<longleftrightarrow> sorted_wrt (<) (map fst ms)"
| "top_ascending _ \<longleftrightarrow> True"

fun is_object :: "json \<Rightarrow> bool" where
  "is_object (JObject ms) \<longleftrightarrow> True"
| "is_object _ \<longleftrightarrow> False"

section \<open>Concrete runs\<close>

text \<open>A template engine for evaluating the program on concrete inputs. A text
  without an action (no \<^verbatim>\<open>{{\<close>) and without \<^verbatim>\<open><\<close> parses, and executing it
  writes the text as it is; that is what \<^verbatim>\<open>html/template\<close> does with such a text.
  Every other text is outside this fragment and is refused here.\<close>

fun has_action :: "string \<Rightarrow> bool" where
  "has_action (a # b # cs) = (a = CHR ''{'' \<and> b = CHR ''{'' \<or> has_action (b # cs))"
| "has_action _ = False"

definition plain_text_engine :: engine where
  "plain_text_engine =
     \<lparr>tmpl_Parse = (\<lambda>t. if has_action t \<or> CHR ''<'' \<in> set t
                          then Some ''outside the fragment'' else None),
      tmpl_Execute = (\<lambda>t d. Inr t)\<rparr>"

text \<open>An engine that refuses every template.\<close>

definition refusing_engine :: engine where
  "refusing_engine =
     \<lparr>tmpl_Parse = (\<lambda>t. Some ''refused''), tmpl_Execute = (\<lambda>t d. Inl ''refused'')\<rparr>"

text \<open>File systems: nothing anywhere; an executable \<^verbatim>\<open>debug\<close> in both \<^verbatim>\<open>/a\<close>
  and \<^verbatim>\<open>/b\<close> (mode octal 755); an executable in the default directory.\<close>

definition no_files :: "string \<Rightarrow> fentry" where
  "no_files path = OpenError"

definition two_plugins :: "string \<Rightarrow> fentry" where
  "two_plugins path =
     (if path = ''/a/debug'' \<or> path = ''/b/debug'' then FileMode 0x1ED else OpenError)"

definition default_plugin :: "string \<Rightarrow> fentry" where
  "default_plugin path =
     (if path = ''/opt/cni/bin/debug'' then FileMode 0x1ED else OpenError)"

text \<open>Process runners: one whose process cannot be started, one whose process
  writes a line on each stream and exits with code 7.\<close>

definition cannot_start :: "string \<Rightarrow> string list \<Rightarrow> document \<Rightarrow> process" where
  "cannot_start path env input =
     \<lparr>proc_stdout = [], proc_stderr = [],
      proc_err = OtherError (''fork/exec '' @ path @ '': permission denied'')\<rparr>"

definition exits_7 :: "string \<Rightarrow> string list \<Rightarrow> document \<Rightarrow> process" where
  "exits_7 path env input =
     \<lparr>proc_stdout = ''out'', proc_stderr = ''err'', proc_err = ExitError 7\<rparr>"

text \<open>A runner whose process is ended by a signal.\<close>

definition killed :: "string \<Rightarrow> string list \<Rightarrow> document \<Rightarrow> process" where
  "killed path env input =
     \<lparr>proc_stdout = [], proc_stderr = [], proc_err = ExitError (- 1)\<rparr>"

text \<open>A run of the plugin without the version flag and with readable input.\<close>

definition run_of ::
  "string \<Rightarrow> (string \<times> string) list \<Rightarrow> engine \<Rightarrow> (string \<Rightarrow> fentry)
     \<Rightarrow> (string \<Rightarrow> string list \<Rightarrow> document \<Rightarrow> process) \<Rightarrow> world"
where
  "run_of input env eng fs run =
     \<lparr>os_Args = [''/opt/cni/bin/gator''], os_Stdin = Inr input, os_env = env,
      templates = eng, files = fs, exec_Run = run\<rparr>"

text \<open>Envelopes. The first is the input of the repository's test
  \<^verbatim>\<open>ExamplePluginNoOp\<close>.\<close>

definition envelope_noop :: string where
  \<open>envelope_noop = ''{"type": "gator", "plugin": "debug", "prevResult": {"key": "value"}}''\<close>

definition envelope_skip :: string where
  \<open>envelope_skip =
     ''{"type": "gator", "plugin": "debug", "skip": ["ADD", "DEL"], "patch": "{{"}''\<close>

definition envelope_truncated :: string where
  \<open>envelope_truncated = ''{"type": "gator", "plugin": "debug", "skip": ["ADD"]''\<close>

definition envelope_misshaped :: string where
  \<open>envelope_misshaped = ''{"type": "gator", "plugin": "debug", "skip": ["ADD"], "patch": 5}''\<close>

definition envelope_text_patch :: string where
  \<open>envelope_text_patch = ''{"type": "gator", "plugin": "debug", "patch": "hello"}''\<close>

text \<open>An envelope whose \<^verbatim>\<open>config\<close> carries a key named \<^verbatim>\<open>plugin\<close>, as the
  configuration of a nested gator would.\<close>

definition envelope_nested :: string where
  \<open>envelope_nested = ''{"type": "gator", "plugin": "debug", "config": {"plugin": "inner"}}''\<close>

text \<open>An envelope with a key \<^verbatim>\<open>name\<close> that \<^verbatim>\<open>config\<close> sets and the patch
  \<^verbatim>\<open>{"name": null}\<close> deletes again; the patch is a JSON string, so its quotes are
  escaped in the envelope.\<close>

definition envelope_null_patch :: string where
  \<open>envelope_null_patch =
     ''{"type": "gator", "plugin": "debug", "name": "orig", "config": {"name": "cfg"}, "patch": "{''
     @ [CHR 0x5C] @ ''"name'' @ [CHR 0x5C] @ ''": null}"}''\<close>

text \<open>An envelope and a \<^verbatim>\<open>config\<close> that both hold an object under \<^verbatim>\<open>ipam\<close>.\<close>

definition envelope_ipam :: string where
  \<open>envelope_ipam =
     ''{"type": "gator", "plugin": "debug", "ipam": {"type": "host-local", "subnet": "a"}, "config": {"ipam": {"subnet": "b"}, "mtu": 1400}}''\<close>

text \<open>The configuration decoded from it, and the documents of its three stages.\<close>

definition conf_ipam :: PluginConfig where
  "conf_ipam =
     \<lparr>Config = Some (Enc (JObject [(''ipam'', JObject [(''subnet'', JString ''b'')]),
                                      (''mtu'', JNumber ''1400'')])),
      Patch = [], Plugin = ''debug'', Skip = nil_slice, stdin = envelope_ipam,
      downstreamConfig = Raw []\<rparr>"

definition cleaned_ipam :: "(string \<times> json) list" where
  "cleaned_ipam =
     [(''ipam'', JObject [(''subnet'', JString ''a''), (''type'', JString ''host-local'')]),
      (''type'', JString ''debug'')]"

definition downstream_ipam :: "(string \<times> json) list" where
  "downstream_ipam =
     [(''ipam'', JObject [(''subnet'', JString ''b'')]), (''mtu'', JNumber ''1400'')]"

definition final_ipam :: "(string \<times> json) list" where
  "final_ipam =
     [(''ipam'', JObject [(''subnet'', JString ''b''), (''type'', JString ''host-local'')]),
      (''mtu'', JNumber ''1400''),
      (''type'', JString ''debug'')]"

text \<open>An envelope whose \<^verbatim>\<open>config\<close> holds \<open>null\<close> under a key of the envelope, and
  the configuration decoded from it.\<close>

definition envelope_null_config :: string where
  \<open>envelope_null_config =
     ''{"type": "gator", "plugin": "debug", "mtu": 1500, "config": {"mtu": null}}''\<close>

definition conf_null_config :: PluginConfig where
  "conf_null_config =
     \<lparr>Config = Some (Enc (JObject [(''mtu'', JNull)])),
      Patch = [], Plugin = ''debug'', Skip = nil_slice, stdin = envelope_null_config,
      downstreamConfig = Raw []\<rparr>"

text \<open>Envelopes that name the field \<^verbatim>\<open>Skip\<close> more than once: with a \<open>null\<close>
  element in the second list; with a shorter second list and a third of \<open>null\<close>
  elements; and one that spells the key with the long s and the Kelvin sign.\<close>

definition envelope_skip_twice :: string where
  \<open>envelope_skip_twice =
     ''{"type": "gator", "plugin": "debug", "skip": ["DEL"], "skip": [null]}''\<close>

definition envelope_skip_thrice :: string where
  \<open>envelope_skip_thrice =
     ''{"plugin": "debug", "skip": ["ADD", "DEL"], "skip": ["CHECK"], "skip": [null, null]}''\<close>

definition envelope_skip_folded :: string where
  \<open>envelope_skip_folded =
     ''{"plugin": "debug", "'' @ long_s @ kelvin_sign @ ''IP": ["ADD"]}''\<close>

text \<open>An envelope with a number beyond the range of \<^verbatim>\<open>float64\<close>.\<close>

definition envelope_large_number :: string where
  \<open>envelope_large_number = ''{"type": "gator", "plugin": "debug", "mtu": 1e999}''\<close>

text \<open>An envelope with a skip list that does not hold the command of the run.\<close>

definition envelope_skip_other :: string where
  \<open>envelope_skip_other = ''{"type": "gator", "plugin": "debug", "skip": ["DEL"]}''\<close>

text \<open>The configuration decoded from the envelope of the no-op test.\<close>

definition conf_noop :: PluginConfig where
  "conf_noop =
     \<lparr>Config = None, Patch = [], Plugin = ''debug'', Skip = nil_slice, stdin = envelope_noop,
      downstreamConfig = Raw []\<rparr>"

text \<open>An envelope whose plugin name holds a double quote (escaped in the
  envelope).\<close>

definition envelope_quoted_plugin :: string where
  \<open>envelope_quoted_plugin =
     ''{"type": "gator", "plugin": "de'' @ [CHR 0x5C] @ ''"bug"}''\<close>

text \<open>The configuration decoded from the envelope whose patch is the text
  \<^verbatim>\<open>hello\<close>.\<close>

definition conf_text_patch :: PluginConfig where
  "conf_text_patch =
     \<lparr>Config = None, Patch = ''hello'', Plugin = ''debug'', Skip = nil_slice,
      stdin = envelope_text_patch, downstreamConfig = Raw []\<rparr>"

section \<open>Properties\<close>

subsection \<open>The resolver\<close>

lemma bit_exec_bits: "bit exec_bits n \<longleftrightarrow> n = 0 \<or> n = 3 \<or> n = 6"
proof -
  have e: "exec_bits = push_bit 6 1 OR (push_bit 3 1 OR (1 :: 32 word))"
    by (simp add: exec_bits_def)
  show ?thesis
    unfolding e bit_or_iff bit_push_bit_iff bit_1_iff
    by auto
qed

lemma exec_bits_iff: "m AND exec_bits \<noteq> 0 \<longleftrightarrow> executable_by_someone m"
proof -
  have "(m AND exec_bits = 0) \<longleftrightarrow> (\<forall>n<32. \<not> (bit m n \<and> bit exec_bits n))"
    by (simp add: bit_eq_iff bit_and_iff)
  also have "\<dots> \<longleftrightarrow> \<not> (bit m 6 \<or> bit m 3 \<or> bit m 0)"
    unfolding bit_exec_bits
    by (metis numeral_less_iff semiring_norm(76,78,79,81) zero_less_numeral)
  finally show ?thesis by (simp add: executable_by_someone_def)
qed

lemma search_paths_step:
  "search_paths fs plugin (p # ps) =
     (if matches fs (filepath_Join [p, plugin]) then Some (filepath_Join [p, plugin])
      else search_paths fs plugin ps)"
  by (simp add: matches_def exec_bits_iff Let_def del: filepath_Join.simps split: fentry.split)

lemma search_paths_None:
  "search_paths fs plugin ds = None \<longleftrightarrow> (\<forall>d \<in> set ds. \<not> matches fs (filepath_Join [d, plugin]))"
  by (induction ds) (simp_all add: search_paths_step del: search_paths.simps(2) filepath_Join.simps)


text \<open>\<^verbatim>\<open>strings.Split\<close> gives the pieces between the separators: joined with the
  separator they are the text again, and no piece holds the separator.\<close>

lemma strings_Split_not_Nil: "strings_Split s c \<noteq> []"
  by (induction s) (auto split: list.splits)

lemma strings_Join_Split: "strings_Join (strings_Split s c) [c] = s"
proof (induction s)
  case Nil
  show ?case by simp
next
  case (Cons a s)
  show ?case
  proof (cases "a = c")
    case True
    with Cons strings_Split_not_Nil [of s c] show ?thesis
      by (cases "strings_Split s c") simp_all
  next
    case False
    with Cons show ?thesis
      by (cases "strings_Split s c"; cases "tl (strings_Split s c)") auto
  qed
qed

lemma strings_Split_pieces: "w \<in> set (strings_Split s c) \<Longrightarrow> c \<notin> set w"
  by (induction s arbitrary: w) (auto split: if_splits list.splits)

lemma strings_Split_piece:
  "c \<notin> set x \<Longrightarrow> strings_Split (x @ c # rest) c = x # strings_Split rest c"
  by (induction x) (auto split: list.splits)

lemma strings_Split_last: "c \<notin> set x \<Longrightarrow> strings_Split x c = [x]"
  by (induction x) auto

lemma strings_Split_Join:
  "es \<noteq> [] \<Longrightarrow> \<forall>e \<in> set es. c \<notin> set e \<Longrightarrow> strings_Split (strings_Join es [c]) c = es"
proof (induction es "[c]" rule: strings_Join.induct)
  case 1
  then show ?case by simp
next
  case (2 x)
  then show ?case by (simp add: strings_Split_last)
next
  case (3 x y ys)
  then show ?case by (simp add: strings_Split_piece)
qed

lemma clean_elements_simple:
  "\<forall>e \<in> set es. simple_name e \<Longrightarrow> clean_elements rooted out es = rev out @ es"
  by (induction es arbitrary: out) (auto simp add: simple_name_def)

lemma strings_Join_snoc:
  "es \<noteq> [] \<Longrightarrow> strings_Join (es @ [p]) sep = strings_Join es sep @ sep @ p"
  by (induction es sep rule: strings_Join.induct) auto

text \<open>For a directory \<^verbatim>\<open>/d1/.../dn\<close> of ordinary names and an ordinary plugin name,
  \<^verbatim>\<open>filepath.Join\<close> is the directory, a slash and the name.\<close>

lemma filepath_Join_simple:
  assumes "ds \<noteq> []" and "\<forall>e \<in> set ds. simple_name e" and "simple_name p"
  shows "filepath_Join [CHR ''/'' # strings_Join ds ''/'', p] =
           CHR ''/'' # strings_Join ds ''/'' @ ''/'' @ p"
proof -
  let ?es = "ds @ [p]"
  have es: "?es \<noteq> []" "\<forall>e \<in> set ?es. simple_name e" "\<forall>e \<in> set ?es. CHR ''/'' \<notin> set e"
    using assms by (auto simp add: simple_name_def)
  have j: "strings_Join [CHR ''/'' # strings_Join ds ''/'', p] ''/'' = CHR ''/'' # strings_Join ?es ''/''"
    using assms(1) by (simp add: strings_Join_snoc)
  have "strings_Split (CHR ''/'' # strings_Join ?es ''/'') CHR ''/'' = [] # ?es"
    using strings_Split_Join [OF es(1,3)] by simp
  then have "clean_elements True [] (strings_Split (CHR ''/'' # strings_Join ?es ''/'') CHR ''/'') = ?es"
    using clean_elements_simple [OF es(2), of True "[]"] by simp
  then show ?thesis
    using assms(1) by (simp add: j filepath_Clean_def strings_Join_snoc del: strings_Join.simps)
qed

lemma cniPaths_of_search_path: "cniPaths_of env = search_path env"
  by (simp add: cniPaths_of_def search_path_def os_Getenv_def Let_def split: option.split)

text \<open>When no directory of the search path has a match, the resolver fails with an
  error that names the plugin and lists every directory of the search path.\<close>

lemma getPluginPath_not_found:
  assumes "\<forall>d \<in> set (search_path env). \<not> matches fs (filepath_Join [d, plugin])"
  shows "getPluginPath env fs plugin =
           Inl (NewError ErrMergeJSONFailed
                  (''cni executable not found in CNI_PATH: '' @ plugin)
                  (''checked: '' @ fmt_v (search_path env)))"
proof -
  from assms have "search_paths fs plugin (search_path env) = None"
    by (simp only: search_paths_None)
  then show ?thesis
    by (simp add: getPluginPath_def cniPaths_of_search_path)
qed



subsection \<open>The skip gate and decoding\<close>

text \<open>
  Claim C3. When the envelope decodes and its skip list holds the value of
  \<^verbatim>\<open>CNI_COMMAND\<close>, the process writes the bytes it read to standard output, writes
  nothing to standard error and exits with code 0, whatever the template engine, the
  file system and the process runner are or would do: none of them has a part in the
  outcome, so it is the same for a patch that is no valid template.
\<close>

theorem skip_gate_echoes_input:
  assumes "\<not> version_flag w"
    and "os_Stdin w = Inr input"
    and "json_Unmarshal input (new_PluginConfig input) = Inr conf"
    and "os_Getenv (os_env w) ''CNI_COMMAND'' \<in> set (elems (Skip conf))"
  shows "main (w\<lparr>templates := eng, files := fs, exec_Run := run\<rparr>)
           = \<lparr>to_stdout = input, to_stderr = [], exit_code = 0\<rparr>"
proof -
  have "parseConf eng (os_env w) input = Exit \<lparr>to_stdout = input, to_stderr = [], exit_code = 0\<rparr>"
    using assms(3,4) by (simp add: parseConf_def slices_Contains_def os_Exit_def)
  moreover have "\<not> version_flag (w\<lparr>templates := eng, files := fs, exec_Run := run\<rparr>)"
    using assms(1) by (simp add: version_flag_def)
  ultimately show ?thesis
    using assms(2) by (simp add: main_def)
qed

lemma unmarshal_envelope_skip:
  "json_Unmarshal envelope_skip (new_PluginConfig envelope_skip) =
     Inr \<lparr>Config = None, Patch = ''{{'', Plugin = ''debug'', Skip = Slice [''ADD'', ''DEL''] [],
          stdin = envelope_skip, downstreamConfig = Raw []\<rparr>"
  by code_simp

text \<open>A member that names the skip list again is decoded into the slice that the
  member before it has left: a \<open>null\<close> element keeps the string of its slot, also of a
  slot behind the length of the slice. The key may be spelled with the long s and the
  Kelvin sign.\<close>

lemma unmarshal_envelope_skip_twice:
  "json_Unmarshal envelope_skip_twice (new_PluginConfig envelope_skip_twice) =
     Inr \<lparr>Config = None, Patch = [], Plugin = ''debug'', Skip = Slice [''DEL''] [],
          stdin = envelope_skip_twice, downstreamConfig = Raw []\<rparr>"
  by code_simp

lemma unmarshal_envelope_skip_thrice:
  "json_Unmarshal envelope_skip_thrice (new_PluginConfig envelope_skip_thrice) =
     Inr \<lparr>Config = None, Patch = [], Plugin = ''debug'', Skip = Slice [''CHECK'', ''DEL''] [],
          stdin = envelope_skip_thrice, downstreamConfig = Raw []\<rparr>"
  by code_simp

lemma unmarshal_envelope_skip_folded:
  "json_Unmarshal envelope_skip_folded (new_PluginConfig envelope_skip_folded) =
     Inr \<lparr>Config = None, Patch = [], Plugin = ''debug'', Skip = Slice [''ADD''] [],
          stdin = envelope_skip_folded, downstreamConfig = Raw []\<rparr>"
  by code_simp

theorem skip_gate_echoes_input_witness:
  "\<not> version_flag (run_of envelope_skip [(''CNI_COMMAND'', ''DEL'')] plain_text_engine no_files exits_7)
   \<and> tmpl_Parse refusing_engine ''{{'' \<noteq> None
   \<and> main ((run_of envelope_skip [(''CNI_COMMAND'', ''DEL'')] plain_text_engine no_files exits_7)
             \<lparr>templates := refusing_engine, files := two_plugins, exec_Run := cannot_start\<rparr>)
       = \<lparr>to_stdout = envelope_skip, to_stderr = [], exit_code = 0\<rparr>
   \<and> main ((run_of envelope_skip_twice [(''CNI_COMMAND'', ''DEL'')] plain_text_engine no_files exits_7)
             \<lparr>templates := refusing_engine, files := two_plugins, exec_Run := cannot_start\<rparr>)
       = \<lparr>to_stdout = envelope_skip_twice, to_stderr = [], exit_code = 0\<rparr>"
proof -
  let ?t = "run_of envelope_skip_twice [(''CNI_COMMAND'', ''DEL'')] plain_text_engine no_files exits_7"
  have t1: "\<not> version_flag ?t"
    by (simp add: version_flag_def run_of_def)
  have t2: "os_Stdin ?t = Inr envelope_skip_twice"
    by (simp add: run_of_def)
  have t4: "os_Getenv (os_env ?t) ''CNI_COMMAND''
             \<in> set (elems (Skip \<lparr>Config = None, Patch = [], Plugin = ''debug'',
                    Skip = Slice [''DEL''] [], stdin = envelope_skip_twice,
                    downstreamConfig = Raw []\<rparr>))"
    by (simp add: run_of_def os_Getenv_def)
  note twice = skip_gate_echoes_input [OF t1 t2 unmarshal_envelope_skip_twice t4]
  let ?w = "run_of envelope_skip [(''CNI_COMMAND'', ''DEL'')] plain_text_engine no_files exits_7"
  have 1: "\<not> version_flag ?w"
    by (simp add: version_flag_def run_of_def)
  have 2: "os_Stdin ?w = Inr envelope_skip"
    by (simp add: run_of_def)
  have 4: "os_Getenv (os_env ?w) ''CNI_COMMAND''
             \<in> set (elems (Skip \<lparr>Config = None, Patch = ''{{'', Plugin = ''debug'', Skip = Slice [''ADD'', ''DEL''] [],
                    stdin = envelope_skip, downstreamConfig = Raw []\<rparr>))"
    by (simp add: run_of_def os_Getenv_def)
  from skip_gate_echoes_input [OF 1 2 unmarshal_envelope_skip 4] twice 1
  show ?thesis by (simp add: refusing_engine_def)
qed

text \<open>
  Claim C10. The skip gate comes after decoding. When the input is not JSON, or is
  JSON that does not decode into the configuration (not an object, or a known field
  of the wrong shape), the process writes nothing to standard output, reports the
  decoding failure on standard error and exits with the decoding code 6; the
  environment, and with it the name of the command, has no part in the outcome.
\<close>

theorem decoding_failure_precedes_skip_gate:
  assumes "\<not> version_flag w"
    and "os_Stdin w = Inr input"
    and "json_parse input = None \<and> e = syntax_error
         \<or> (\<exists>v. json_parse input = Some v \<and> decode_struct v (new_PluginConfig input) = Inl e)"
  shows "main (w\<lparr>os_env := env\<rparr>)
           = \<lparr>to_stdout = [],
              to_stderr = Error_text (NewError ErrDecodingFailure ''failed to parse JSON config'' e),
              exit_code = 6\<rparr>"
proof -
  from assms(3) have "json_Unmarshal input (new_PluginConfig input) = Inl e"
    by (auto simp add: json_Unmarshal_def)
  moreover have "\<not> version_flag (w\<lparr>os_env := env\<rparr>)"
    using assms(1) by (simp add: version_flag_def)
  ultimately show ?thesis
    using assms(2)
    by (simp add: main_def parseConf_def handleError_def NewError_def ErrDecodingFailure_def
        os_Exit_def)
qed

theorem decoding_failure_precedes_skip_gate_witness:
  "main ((run_of envelope_truncated [] plain_text_engine two_plugins exits_7)
            \<lparr>os_env := [(''CNI_COMMAND'', ''ADD'')]\<rparr>)
     = \<lparr>to_stdout = [], to_stderr = ''failed to parse JSON config; invalid character'',
        exit_code = 6\<rparr>
   \<and> main ((run_of envelope_misshaped [] plain_text_engine two_plugins exits_7)
            \<lparr>os_env := [(''CNI_COMMAND'', ''ADD'')]\<rparr>)
     = \<lparr>to_stdout = [],
        to_stderr = ''failed to parse JSON config; json: cannot unmarshal into Go struct field PluginConfig.Patch'',
        exit_code = 6\<rparr>"
proof -
  let ?w1 = "run_of envelope_truncated [] plain_text_engine two_plugins exits_7"
  let ?w2 = "run_of envelope_misshaped [] plain_text_engine two_plugins exits_7"
  have v: "\<not> version_flag ?w1" "\<not> version_flag ?w2"
    by (simp_all add: version_flag_def run_of_def)
  have i: "os_Stdin ?w1 = Inr envelope_truncated" "os_Stdin ?w2 = Inr envelope_misshaped"
    by (simp_all add: run_of_def)
  have p1: "json_parse envelope_truncated = None"
    unfolding envelope_truncated_def by code_simp
  have p2: "json_parse envelope_misshaped =
              Some (JObject [(''type'', JString ''gator''), (''plugin'', JString ''debug''),
                             (''skip'', JArray [JString ''ADD'']), (''patch'', JNumber ''5'')])"
    unfolding envelope_misshaped_def by code_simp
  have d2: "decode_struct
              (JObject [(''type'', JString ''gator''), (''plugin'', JString ''debug''),
                        (''skip'', JArray [JString ''ADD'']), (''patch'', JNumber ''5'')])
              (new_PluginConfig envelope_misshaped) = Inl (type_error ''Patch'')"
    by code_simp
  have h1: "json_parse envelope_truncated = None \<and> syntax_error = syntax_error
         \<or> (\<exists>v. json_parse envelope_truncated = Some v
                \<and> decode_struct v (new_PluginConfig envelope_truncated) = Inl syntax_error)"
    using p1 by simp
  have h2: "json_parse envelope_misshaped = None \<and> type_error ''Patch'' = syntax_error
         \<or> (\<exists>v. json_parse envelope_misshaped = Some v
                \<and> decode_struct v (new_PluginConfig envelope_misshaped) = Inl (type_error ''Patch''))"
    using p2 d2 by simp
  from decoding_failure_precedes_skip_gate [OF v(1) i(1) h1]
       decoding_failure_precedes_skip_gate [OF v(2) i(2) h2]
  show ?thesis
    by (simp add: Error_text_def NewError_def syntax_error_def type_error_def)
qed

subsection \<open>Delegation and failure codes\<close>

lemma main_delegates:
  assumes "\<not> version_flag w"
    and "os_Stdin w = Inr input"
    and "parseConf (templates w) (os_env w) input = Return (Some conf, None)"
    and "getPluginPath (os_env w) (files w) (Plugin conf) = Inr path"
  shows "main w =
           (let p = exec_Run w path (os_Environ (os_env w)) (downstreamConfig conf) in
            \<lparr>to_stdout = proc_stdout p, to_stderr = proc_stderr p,
             exit_code = os_Exit (case proc_err p of ExitError c \<Rightarrow> c | _ \<Rightarrow> 0)\<rparr>)"
  using assms by (simp add: main_def delegate_def Let_def)

lemma parseConf_envelope_noop:
  "parseConf plain_text_engine env envelope_noop =
     Return (Some \<lparr>Config = None, Patch = [], Plugin = ''debug'', Skip = nil_slice,
                   stdin = envelope_noop,
                   downstreamConfig =
                     Enc (JObject [(''prevResult'', JObject [(''key'', JString ''value'')]),
                                   (''type'', JString ''debug'')])\<rparr>,
             None)"
  by code_simp


lemma getPluginPath_default_plugin:
  "getPluginPath [] default_plugin ''debug'' = Inr ''/opt/cni/bin/debug''"
  by (simp add: getPluginPath_def cniPaths_of_def os_Getenv_def filepath_Clean_def
      default_plugin_def exec_bits_def)

lemma main_envelope_noop:
  "main (run_of envelope_noop [] plain_text_engine default_plugin run) =
     (let p = run ''/opt/cni/bin/debug'' []
                (Enc (JObject [(''prevResult'', JObject [(''key'', JString ''value'')]),
                               (''type'', JString ''debug'')]))
      in \<lparr>to_stdout = proc_stdout p, to_stderr = proc_stderr p,
          exit_code = os_Exit (case proc_err p of ExitError c \<Rightarrow> c | _ \<Rightarrow> 0)\<rparr>)"
proof -
  let ?conf = "\<lparr>Config = None, Patch = [], Plugin = ''debug'', Skip = nil_slice,
                stdin = envelope_noop,
                downstreamConfig =
                  Enc (JObject [(''prevResult'', JObject [(''key'', JString ''value'')]),
                                (''type'', JString ''debug'')])\<rparr>"
  let ?w = "run_of envelope_noop [] plain_text_engine default_plugin run"
  have v: "\<not> version_flag ?w"
    by (simp add: run_of_def version_flag_def)
  have i: "os_Stdin ?w = Inr envelope_noop"
    by (simp add: run_of_def)
  have pc: "parseConf (templates ?w) (os_env ?w) envelope_noop = Return (Some ?conf, None)"
    by (simp add: run_of_def parseConf_envelope_noop)
  have gp: "getPluginPath (os_env ?w) (files ?w) (Plugin ?conf) = Inr ''/opt/cni/bin/debug''"
    by (simp add: run_of_def getPluginPath_default_plugin)
  from main_delegates [OF v i pc gp] show ?thesis
    by (simp add: run_of_def os_Environ_def)
qed

text \<open>
  Claim C5, evaluated. The envelope of the no-op test resolves to
  \<^verbatim>\<open>/opt/cni/bin/debug\<close>. When that process cannot be started, \<^verbatim>\<open>cmd.Run\<close>
  returns an error that is no \<^verbatim>\<open>*exec.ExitError\<close>; \<^verbatim>\<open>delegate\<close> drops it, and
  the program ends with exit code 0 and an empty error stream, as after a successful
  run. When the process runs and exits with code 7, the program relays its two
  streams and exits with 7.
\<close>

theorem spawn_failure_exits_zero:
  "main (run_of envelope_noop [] plain_text_engine default_plugin cannot_start)
     = \<lparr>to_stdout = [], to_stderr = [], exit_code = 0\<rparr>
   \<and> main (run_of envelope_noop [] plain_text_engine default_plugin exits_7)
     = \<lparr>to_stdout = ''out'', to_stderr = ''err'', exit_code = 7\<rparr>"
  by (simp add: main_envelope_noop cannot_start_def exits_7_def Let_def os_Exit_def)

text \<open>The caller sees the low eight bits of the code that the program passes on:
  when a signal ends the plugin, \<^verbatim>\<open>ExitCode()\<close> is -1 and the program ends with
  255.\<close>

lemma signal_exit_status:
  "main (run_of envelope_noop [] plain_text_engine default_plugin killed)
     = \<lparr>to_stdout = [], to_stderr = [], exit_code = 255\<rparr>"
  by (simp add: main_envelope_noop killed_def Let_def os_Exit_def)

lemma parseConf_envelope_text_patch:
  "parseConf plain_text_engine env envelope_text_patch =
     Return (Some \<lparr>Config = None, Patch = ''hello'', Plugin = ''debug'', Skip = nil_slice,
                   stdin = envelope_text_patch, downstreamConfig = Raw []\<rparr>,
             Some \<lparr>Code = 101, Msg = ''failed to merge patch with downstream config'',
                   Details = ''Invalid JSON Patch''\<rparr>)"
  by code_simp

text \<open>
  Claim C7, evaluated. With \<^verbatim>\<open>CNI_PATH=/a:/b\<close> and no executable in either
  directory the program names the plugin and both directories on standard error and
  exits with code 101, the value of \<^verbatim>\<open>ErrMergeJSONFailed\<close>; a run whose rendered
  patch is not JSON fails in the second merge stage and exits with the same code.
\<close>

theorem plugin_not_found_exits_with_merge_code:
  "main (run_of envelope_noop [(''CNI_PATH'', ''/a:/b'')] plain_text_engine no_files exits_7)
     = \<lparr>to_stdout = [],
        to_stderr = ''cni executable not found in CNI_PATH: debug; checked: [/a /b]'',
        exit_code = int ErrMergeJSONFailed\<rparr>
   \<and> main (run_of envelope_text_patch [] plain_text_engine default_plugin exits_7)
     = \<lparr>to_stdout = [],
        to_stderr = ''failed to merge patch with downstream config; Invalid JSON Patch'',
        exit_code = int ErrMergeJSONFailed\<rparr>"
proof -
  have "getPluginPath [(''CNI_PATH'', ''/a:/b'')] no_files ''debug'' =
          Inl \<lparr>Code = 101, Msg = ''cni executable not found in CNI_PATH: debug'',
               Details = ''checked: [/a /b]''\<rparr>"
    by (simp add: getPluginPath_def cniPaths_of_def os_Getenv_def filepath_Clean_def
        no_files_def NewError_def ErrMergeJSONFailed_def fmt_v_def)
  then show ?thesis
    by (simp add: main_def run_of_def version_flag_def parseConf_envelope_noop
        parseConf_envelope_text_patch handleError_def Error_text_def ErrMergeJSONFailed_def
        os_Exit_def)
qed

subsection \<open>Scanning and parsing a text in parts\<close>

lemma lex_append:
  "lex st (xs @ ys) =
     (case lex_run st xs of
        None \<Rightarrow> None
      | Some (ts, st') \<Rightarrow> (case lex st' ys of None \<Rightarrow> None | Some r \<Rightarrow> Some (ts @ r)))"
  by (induction xs arbitrary: st) (auto split: option.splits)

lemma lex_run_append:
  "lex_run st (xs @ ys) =
     (case lex_run st xs of
        None \<Rightarrow> None
      | Some (ts, st') \<Rightarrow>
          (case lex_run st' ys of None \<Rightarrow> None | Some (ts', st'') \<Rightarrow> Some (ts @ ts', st'')))"
  by (induction xs arbitrary: st) (auto split: option.splits)

lemma parse_tokens_append:
  "parse_tokens m st (ts @ us) =
     (case parse_run m st ts of
        None \<Rightarrow> None
      | Some (m', st') \<Rightarrow> parse_tokens m' st' us)"
  by (induction ts arbitrary: m st) (auto split: option.splits)

lemma lex_idle_inv: "lex_idle c = Some (ts, st) \<Longrightarrow> lex_inv st"
  by (auto simp add: lex_idle_def split: if_splits)

lemma lex_step_inv: "lex_inv st \<Longrightarrow> lex_step st c = Some (ts, st') \<Longrightarrow> lex_inv st'"
proof (cases st)
  case (LLiteral r tok)
  assume "lex_inv st" "lex_step st c = Some (ts, st')"
  with LLiteral show ?thesis
    by (cases r) (auto split: if_splits)
qed (auto simp add: lex_idle_inv split: if_splits option.splits)

lemma lex_run_inv: "lex_inv st \<Longrightarrow> lex_run st xs = Some (ts, st') \<Longrightarrow> lex_inv st'"
proof (induction xs arbitrary: st ts)
  case Nil
  then show ?case by simp
next
  case (Cons c cs)
  from Cons.prems(2) obtain a b aa where
    s: "lex_step st c = Some (a, b)" and r: "lex_run b cs = Some (aa, st')"
    by (auto split: option.splits)
  from lex_step_inv [OF Cons.prems(1) s] have "lex_inv b" .
  from Cons.IH [OF this r] show ?case .
qed


lemma lex_cleanup_tail:
  assumes "lex_inv st"
  shows "lex st cleanup_tail =
           (case st of
              LString acc \<Rightarrow> Some (TString (unquote (rev acc)) # cleanup_tail_tokens)
            | _ \<Rightarrow> None)"
proof (cases st)
  case (LNum ns acc)
  then show ?thesis
    by (cases ns)
       (simp_all add: cleanup_tail_def lex_idle_def is_space_def is_digit_def is_digit19_def
          is_exp_def)
next
  case (LLiteral r tok)
  with assms show ?thesis
    by (cases r) (auto simp add: cleanup_tail_def)
qed (simp_all add: cleanup_tail_def cleanup_tail_tokens_def lex_idle_def is_space_def
       is_digit_def is_digit19_def hexval_def lex_escape_def unquote_def rune_length_def)

lemma parse_cleanup_tail:
  assumes "parse_tokens m st cleanup_tail_tokens = Some v"
  shows "\<exists>ms k. m = PNext \<and> st = [FObject ms k] \<and> v = JObject (rev ms @ cleanup_members)"
proof (cases m)
  case PNext
  show ?thesis
  proof (cases st)
    case Nil
    with PNext assms show ?thesis
      by (simp add: cleanup_tail_tokens_def)
  next
    case (Cons f fs)
    show ?thesis
    proof (cases f)
      case (FArray es)
      with PNext Cons assms show ?thesis
        by (simp add: cleanup_tail_tokens_def)
    next
      case (FObject ms k)
      show ?thesis
      proof (cases fs)
        case Nil
        with PNext Cons FObject assms show ?thesis
          by (simp add: cleanup_tail_tokens_def cleanup_members_def)
      next
        case (Cons g gs)
        with PNext \<open>st = f # fs\<close> FObject assms show ?thesis
          by (cases g) (simp_all add: cleanup_tail_tokens_def)
      qed
    qed
  qed
qed (use assms in \<open>simp_all add: cleanup_tail_tokens_def\<close>)

lemma cleanup_patch_split: "cleanup_patch s = (cleanup_head @ s) @ cleanup_tail"
  by (simp add: cleanup_patch_def cleanup_head_def cleanup_tail_def)

lemma cleanup_patch_shape:
  assumes "json_parse (cleanup_patch s) = Some v"
  shows "\<exists>ms. v = JObject (ms @ cleanup_members)"
proof -
  from assms obtain toks where
    l: "lex LIdle ((cleanup_head @ s) @ cleanup_tail) = Some toks"
    and p: "parse_tokens PValue [] toks = Some v"
    by (auto simp add: json_parse_def cleanup_patch_split split: option.splits)
  from l obtain ts st r where
    run: "lex_run LIdle (cleanup_head @ s) = Some (ts, st)"
    and tail: "lex st cleanup_tail = Some r" and toks: "toks = ts @ r"
    unfolding lex_append by (auto split: option.splits)
  have "lex_inv st"
    by (rule lex_run_inv [OF _ run]) simp
  with tail obtain acc where
    r: "r = TString (unquote (rev acc)) # cleanup_tail_tokens"
    by (auto simp add: lex_cleanup_tail split: lexstate.splits)
  have "toks = (ts @ [TString (unquote (rev acc))]) @ cleanup_tail_tokens"
    using toks r by simp
  with p have "parse_tokens PValue []
                 ((ts @ [TString (unquote (rev acc))]) @ cleanup_tail_tokens) = Some v"
    by simp
  then obtain m fs where "parse_tokens m fs cleanup_tail_tokens = Some v"
    by (subst (asm) parse_tokens_append) (auto split: option.splits)
  from parse_cleanup_tail [OF this] show ?thesis by blast
qed


lemma lex_run_unescaped:
  "unescaped s \<Longrightarrow> lex_run (LString acc) s = Some ([], LString (rev (map Byte s) @ acc))"
  by (induction s arbitrary: acc) (simp_all add: unescaped_def)

lemma decode_units_bytes: "decode_units (map Byte s) = s"
  by (induction s) simp_all

lemma unquote_plain: "plain s \<Longrightarrow> unquote (map Byte s) = s"
  by (simp add: unquote_def decode_units_bytes plain_def)

lemma lex_run_cleanup_head:
  "lex_run LIdle cleanup_head = Some ([TLBrace, TString ''type'', TColon], LString [])"
  by (simp add: cleanup_head_def lex_idle_def is_space_def is_digit19_def unquote_def
      rune_length_def)

lemma cleanup_patch_plain:
  assumes "plain s"
  shows "json_parse (cleanup_patch s) = Some (JObject ((''type'', JString s) # cleanup_members))"
proof -
  from assms have "unescaped s"
    by (simp add: plain_def)
  then have "lex_run LIdle (cleanup_head @ s) =
          Some ([TLBrace, TString ''type'', TColon], LString (rev (map Byte s)))"
    by (simp add: lex_run_append lex_run_cleanup_head lex_run_unescaped)
  then have "lex LIdle ((cleanup_head @ s) @ cleanup_tail) =
          Some ([TLBrace, TString ''type'', TColon] @ TString s # cleanup_tail_tokens)"
    by (subst lex_append) (simp add: lex_cleanup_tail unquote_plain [OF assms])
  then show ?thesis
    by (simp add: json_parse_def cleanup_patch_split cleanup_tail_tokens_def
        cleanup_members_def maxNestingDepth_def)
qed

lemma json_parse_empty_object: "json_parse ''{}'' = Some (JObject [])"
  by (simp add: json_parse_def lex_idle_def is_space_def maxNestingDepth_def)

subsection \<open>Objects\<close>

lemma obj_get_set: "obj_get (obj_set k v ms) k' = (if k' = k then Some v else obj_get ms k')"
  by (induction ms) auto

lemma obj_get_del: "obj_get (obj_del k ms) k' = (if k' = k then None else obj_get ms k')"
  by (induction ms) auto

lemma keys_obj_set: "fst ` set (obj_set k v ms) = insert k (fst ` set ms)"
  by (induction k v ms rule: obj_set.induct) (simp_all add: insert_commute)

lemma keys_obj_del: "fst ` set (obj_del k ms) = fst ` set ms - {k}"
  by (induction k ms rule: obj_del.induct) (auto simp add: insert_Diff_if)

lemma ascending_obj_set:
  "sorted_wrt (<) (map fst ms) \<Longrightarrow> sorted_wrt (<) (map fst (obj_set k v ms))"
proof (induction k v ms rule: obj_set.induct)
  case (1 k v)
  show ?case by simp
next
  case (2 k v k' v' ms)
  show ?case
  proof (cases "k = k' \<or> k < k'")
    case True
    with "2.prems" show ?thesis by auto
  next
    case False
    then have "k' < k" by auto
    with False "2.prems" "2.IH" show ?thesis
      by (auto simp add: keys_obj_set)
  qed
qed

lemma ascending_obj_del:
  "sorted_wrt (<) (map fst ms) \<Longrightarrow> sorted_wrt (<) (map fst (obj_del k ms))"
  by (induction k ms rule: obj_del.induct) (auto simp add: keys_obj_del)

lemma ascending_distinct: "sorted_wrt (<) (map fst ms) \<Longrightarrow> distinct (map fst ms)"
  for ms :: "(string \<times> json) list"
  by (simp add: strict_sorted_iff)

lemma obj_get_None_iff: "obj_get ms k = None \<longleftrightarrow> k \<notin> fst ` set ms"
  by (induction ms k rule: obj_get.induct) (auto split: if_splits)

lemma ascending_obj_of_members:
  "sorted_wrt (<) (map fst acc) \<Longrightarrow> sorted_wrt (<) (map fst (obj_of_members acc ms))"
  by (induction acc ms rule: obj_of_members.induct) (auto simp add: ascending_obj_set)

lemma obj_of_members_append:
  "obj_of_members acc (ms @ ns) = obj_of_members (obj_of_members acc ms) ns"
  by (induction acc ms rule: obj_of_members.induct) auto

lemma ascending_merge_members:
  "sorted_wrt (<) (map fst tms) \<Longrightarrow> sorted_wrt (<) (map fst (merge_members tms pms))"
  by (induction pms arbitrary: tms) (auto simp add: ascending_obj_set ascending_obj_del)

lemma obj_get_merge_members_other:
  "k \<notin> fst ` set pms \<Longrightarrow> obj_get (merge_members tms pms) k = obj_get tms k"
  by (induction pms arbitrary: tms) (auto simp add: obj_get_set obj_get_del)

lemma obj_get_merge_members:
  assumes "distinct (map fst pms)"
  shows "obj_get (merge_members tms pms) k =
           (case obj_get pms k of
              None \<Rightarrow> obj_get tms k
            | Some pv \<Rightarrow>
                if pv = JNull then None
                else Some (merge_patch (case obj_get tms k of Some tv \<Rightarrow> tv | None \<Rightarrow> JNull) pv))"
  using assms
proof (induction pms arbitrary: tms)
  case Nil
  show ?case by simp
next
  case (Cons p pms)
  obtain k' pv where p: "p = (k', pv)" by (cases p)
  show ?case
  proof (cases "k = k'")
    case True
    with Cons.prems p have "k \<notin> fst ` set pms" by auto
    with True p show ?thesis
      by (simp add: obj_get_merge_members_other obj_get_set obj_get_del)
  next
    case False
    from Cons.prems have "distinct (map fst pms)" by simp
    from Cons.IH [OF this] False p show ?thesis
      by (auto simp add: obj_get_set obj_get_del split: option.split)
  qed
qed

subsection \<open>The three stages\<close>

lemma top_ascending_canon: "top_ascending (canon v)"
  by (cases v) (simp_all add: ascending_obj_of_members)

lemma top_ascending_merge_patch: "top_ascending t \<Longrightarrow> top_ascending (merge_patch t p)"
  by (cases p; cases t) (simp_all add: ascending_merge_members)

lemma merge_patch_not_object: "\<not> is_object p \<Longrightarrow> merge_patch t p = p"
  by (cases p) simp_all

lemma MergePatch_Inr:
  "MergePatch a b = Inr d \<longleftrightarrow>
     (\<exists>x y. decode_document a = Some x \<and> decode_document b = Some y \<and> d = Enc (merge_patch x y))"
  by (auto simp add: MergePatch_def split: option.splits)

lemma generateDownstream_InrE:
  assumes "generateDownstream eng conf = Inr final"
  obtains view merger cleaned downstream where
    "tmpl_Parse eng (Patch conf) = None"
    "json_Unmarshal_interface (stdin conf) = Inr view"
    "tmpl_Execute eng (Patch conf) view = Inr merger"
    "MergePatch (Raw (stdin conf)) (Raw (cleanup_patch (Plugin conf))) = Inr cleaned"
    "MergePatch (case Config conf of None \<Rightarrow> Raw ''{}'' | Some c \<Rightarrow> c)
       (if length merger = 0 then Raw ''{}'' else Raw merger) = Inr downstream"
    "MergePatch cleaned downstream = Inr final"
proof -
  from assms have p: "tmpl_Parse eng (Patch conf) = None"
    by (simp add: generateDownstream_def split: option.splits)
  with assms obtain view where v: "json_Unmarshal_interface (stdin conf) = Inr view"
    by (cases "json_Unmarshal_interface (stdin conf)") (simp_all add: generateDownstream_def)
  with assms p obtain merger where m: "tmpl_Execute eng (Patch conf) view = Inr merger"
    by (cases "tmpl_Execute eng (Patch conf) view") (simp_all add: generateDownstream_def)
  with assms p v obtain cleaned where
    c: "MergePatch (Raw (stdin conf)) (Raw (cleanup_patch (Plugin conf))) = Inr cleaned"
    by (cases "MergePatch (Raw (stdin conf)) (Raw (cleanup_patch (Plugin conf)))")
       (simp_all add: generateDownstream_def)
  let ?d = "MergePatch (case Config conf of None \<Rightarrow> Raw ''{}'' | Some c \<Rightarrow> c)
              (if length merger = 0 then Raw ''{}'' else Raw merger)"
  from assms p v m c obtain downstream where d: "?d = Inr downstream"
    by (cases ?d) (simp_all add: generateDownstream_def)
  with assms p v m c have "MergePatch cleaned downstream = Inr final"
    by (cases "MergePatch cleaned downstream") (simp_all add: generateDownstream_def)
  with p v m c d that show thesis by blast
qed

lemma generateDownstream_Inr:
  assumes "generateDownstream eng conf = Inr final"
  shows "\<exists>c d. cleaned_of conf = Some c \<and> downstream_of eng conf = Some d
           \<and> final = Enc (merge_patch c d)"
proof -
  from assms obtain view merger cleaned downstream where
    s: "json_Unmarshal_interface (stdin conf) = Inr view"
       "tmpl_Execute eng (Patch conf) view = Inr merger"
       "MergePatch (Raw (stdin conf)) (Raw (cleanup_patch (Plugin conf))) = Inr cleaned"
       "MergePatch (case Config conf of None \<Rightarrow> Raw ''{}'' | Some c \<Rightarrow> c)
          (if length merger = 0 then Raw ''{}'' else Raw merger) = Inr downstream"
       "MergePatch cleaned downstream = Inr final"
    by (rule generateDownstream_InrE)
  from s(5) obtain c d where
    "decode_document cleaned = Some c" "decode_document downstream = Some d"
    "final = Enc (merge_patch c d)"
    unfolding MergePatch_Inr by blast
  with s(1-4) show ?thesis
    by (simp add: cleaned_of_def downstream_of_def)
qed

lemma obj_get_canon_cleanup:
  assumes "k \<in> set [''plugin'', ''config'', ''patch'']"
  shows "\<exists>cm. canon (JObject (ms @ cleanup_members)) = JObject cm
           \<and> sorted_wrt (<) (map fst cm) \<and> obj_get cm k = Some JNull"
proof -
  let ?acc = "obj_of_members [] (map (\<lambda>kv. (fst kv, canon (snd kv))) ms)"
  have c: "canon (JObject (ms @ cleanup_members)) =
             JObject (obj_set ''patch'' JNull (obj_set ''config'' JNull (obj_set ''plugin'' JNull ?acc)))"
    by (simp add: cleanup_members_def obj_of_members_append)
  have "sorted_wrt (<) (map fst ?acc)"
    by (rule ascending_obj_of_members) simp
  then have "sorted_wrt (<) (map fst
      (obj_set ''patch'' JNull (obj_set ''config'' JNull (obj_set ''plugin'' JNull ?acc))))"
    by (intro ascending_obj_set)
  moreover have "obj_get (obj_set ''patch'' JNull (obj_set ''config'' JNull (obj_set ''plugin'' JNull ?acc))) k
                   = Some JNull"
    using assms by (auto simp add: obj_get_set)
  ultimately show ?thesis using c by blast
qed

lemma cleaned_of_own_fields:
  assumes "cleaned_of conf = Some c" and "k \<in> set [''plugin'', ''config'', ''patch'']"
  shows "\<exists>cms. c = JObject cms \<and> obj_get cms k = None"
proof -
  from assms(1) obtain e p where
    e: "decode_document (Raw (stdin conf)) = Some e"
    and p: "json_parse (cleanup_patch (Plugin conf)) = Some p"
    and c: "c = merge_patch e (canon p)"
    by (auto simp add: cleaned_of_def MergePatch_Inr split: sum.splits)
  from cleanup_patch_shape [OF p] obtain ms where "p = JObject (ms @ cleanup_members)" ..
  with obj_get_canon_cleanup [OF assms(2)] obtain cm where
    cm: "canon p = JObject cm" "sorted_wrt (<) (map fst cm)" "obj_get cm k = Some JNull"
    by blast
  from cm(2) have "distinct (map fst cm)"
    by (rule ascending_distinct)
  from obj_get_merge_members [OF this] cm(3)
  have "obj_get (merge_members tms cm) k = None" for tms
    by simp
  with c cm(1) show ?thesis by simp
qed

subsection \<open>What decoding establishes\<close>

lemma decode_member_keeps:
  assumes "decode_member k v conf = Inr conf'"
  shows "stdin conf' = stdin conf
         \<and> (\<forall>c. Config conf' = Some c \<longrightarrow> Config conf = Some c \<or> (\<exists>x. c = Enc (canon x)))"
  using assms
  by (auto simp add: decode_member_def split: if_splits option.splits)

lemma decode_members_keeps:
  assumes "decode_members ms conf = Inr conf'"
    and "\<forall>c. Config conf = Some c \<longrightarrow> (\<exists>x. c = Enc (canon x))"
  shows "stdin conf' = stdin conf \<and> (\<forall>c. Config conf' = Some c \<longrightarrow> (\<exists>x. c = Enc (canon x)))"
  using assms
proof (induction ms arbitrary: conf)
  case Nil
  then show ?case by simp
next
  case (Cons m ms)
  obtain k v where m: "m = (k, v)" by (cases m)
  with Cons.prems(1) obtain conf1 where
    1: "decode_member k v conf = Inr conf1" and 2: "decode_members ms conf1 = Inr conf'"
    by (auto split: sum.splits)
  from decode_member_keeps [OF 1] Cons.prems(2)
  have "stdin conf1 = stdin conf" "\<forall>c. Config conf1 = Some c \<longrightarrow> (\<exists>x. c = Enc (canon x))"
    by auto
  with Cons.IH [OF 2] show ?case by simp
qed

lemma json_Unmarshal_keeps:
  assumes "json_Unmarshal input (new_PluginConfig input) = Inr conf"
  shows "stdin conf = input" and "\<exists>v. json_parse input = Some v"
    and "Config conf = None \<or> (\<exists>x. Config conf = Some (Enc (canon x)))"
proof -
  from assms obtain v where v: "json_parse input = Some v"
    and d: "decode_struct v (new_PluginConfig input) = Inr conf"
    by (auto simp add: json_Unmarshal_def split: option.splits)
  from v show "\<exists>v. json_parse input = Some v" ..
  have n: "stdin (new_PluginConfig input) = input"
    "\<forall>c. Config (new_PluginConfig input) = Some c \<longrightarrow> (\<exists>x. c = Enc (canon x))"
    by (simp_all add: new_PluginConfig_def)
  from d have "stdin conf = input
      \<and> (\<forall>c. Config conf = Some c \<longrightarrow> (\<exists>x. c = Enc (canon x)))"
  proof (cases v)
    case JNull
    with d n show ?thesis by simp
  next
    case (JObject ms)
    with d decode_members_keeps [OF _ n(2), of ms conf] n(1) show ?thesis by simp
  qed simp_all
  then show "stdin conf = input" "Config conf = None \<or> (\<exists>x. Config conf = Some (Enc (canon x)))"
    by (cases "Config conf"; auto)+
qed

lemma downstream_of_ascending:
  assumes "Config conf = None \<or> (\<exists>x. Config conf = Some (Enc (canon x)))"
    and "downstream_of eng conf = Some d"
  shows "top_ascending d"
proof -
  from assms(2) obtain b p where
    b: "decode_document (case Config conf of None \<Rightarrow> Raw ''{}'' | Some c \<Rightarrow> c) = Some b"
    and d: "d = merge_patch b p"
    by (auto simp add: downstream_of_def MergePatch_Inr split: sum.splits)
  from assms(1) b have "top_ascending b"
    by (auto simp add: top_ascending_canon)
  with d show ?thesis
    by (simp add: top_ascending_merge_patch)
qed

subsection \<open>Claims on the composition\<close>

text \<open>
  Claim C1, as amended. On the delegate path, stage 1 applies the cleanup patch that
  the code builds, \<^verbatim>\<open>{"type": "<plugin>", "plugin": null, "config": null, "patch": null}\<close>,
  to the envelope: the cleaned document is an object in which none of \<^verbatim>\<open>plugin\<close>,
  \<^verbatim>\<open>config\<close> and \<^verbatim>\<open>patch\<close> is a key, whatever the plugin name is. FinalConfig is the
  downstream document merged onto the cleaned one, so such a key is a key of
  FinalConfig only if the downstream document supplies it.
\<close>

theorem own_fields_removed_by_cleanup:
  assumes "generateDownstream eng conf = Inr final"
    and "k \<in> set [''plugin'', ''config'', ''patch'']"
  shows "\<exists>cms d. cleaned_of conf = Some (JObject cms) \<and> obj_get cms k = None
           \<and> downstream_of eng conf = Some d
           \<and> final = Enc (merge_patch (JObject cms) d)
           \<and> (\<forall>dms. d = JObject dms \<and> obj_get dms k = None
                 \<longrightarrow> (\<exists>fms. final = Enc (JObject fms) \<and> obj_get fms k = None))"
proof -
  from generateDownstream_Inr [OF assms(1)] obtain c d where
    c: "cleaned_of conf = Some c" and d: "downstream_of eng conf = Some d"
    and f: "final = Enc (merge_patch c d)"
    by blast
  from cleaned_of_own_fields [OF c assms(2)] obtain cms where
    cms: "c = JObject cms" "obj_get cms k = None"
    by blast
  have "\<exists>fms. final = Enc (JObject fms) \<and> obj_get fms k = None"
    if "d = JObject dms \<and> obj_get dms k = None" for dms
  proof -
    from that have "k \<notin> fst ` set dms"
      by (simp add: obj_get_None_iff)
    then have "obj_get (merge_members cms dms) k = None"
      by (simp add: obj_get_merge_members_other cms(2))
    with that f cms(1) show ?thesis by simp
  qed
  with c d f cms show ?thesis by blast
qed

lemma generateDownstream_conf_noop:
  "generateDownstream plain_text_engine conf_noop =
     Inr (Enc (JObject [(''prevResult'', JObject [(''key'', JString ''value'')]),
                        (''type'', JString ''debug'')]))"
  by code_simp

theorem own_fields_removed_by_cleanup_witness:
  "generateDownstream plain_text_engine conf_noop =
     Inr (Enc (JObject [(''prevResult'', JObject [(''key'', JString ''value'')]),
                        (''type'', JString ''debug'')]))
   \<and> (\<exists>cms d. cleaned_of conf_noop = Some (JObject cms) \<and> obj_get cms ''plugin'' = None
           \<and> downstream_of plain_text_engine conf_noop = Some d
           \<and> Enc (JObject [(''prevResult'', JObject [(''key'', JString ''value'')]),
                            (''type'', JString ''debug'')])
               = Enc (merge_patch (JObject cms) d)
           \<and> (\<forall>dms. d = JObject dms \<and> obj_get dms ''plugin'' = None
                 \<longrightarrow> (\<exists>fms. Enc (JObject [(''prevResult'', JObject [(''key'', JString ''value'')]),
                                            (''type'', JString ''debug'')])
                               = Enc (JObject fms) \<and> obj_get fms ''plugin'' = None)))"
proof -
  have "''plugin'' \<in> set [''plugin'', ''config'', ''patch'']" by simp
  from own_fields_removed_by_cleanup [OF generateDownstream_conf_noop this]
    generateDownstream_conf_noop
  show ?thesis by blast
qed

theorem own_field_in_final_config_counterexample:
  "parseConf plain_text_engine [] envelope_nested =
     Return (Some \<lparr>Config = Some (Enc (JObject [(''plugin'', JString ''inner'')])),
                   Patch = [], Plugin = ''debug'', Skip = nil_slice, stdin = envelope_nested,
                   downstreamConfig =
                     Enc (JObject [(''plugin'', JString ''inner''),
                                   (''type'', JString ''debug'')])\<rparr>,
             None)"
  by code_simp

text \<open>
  Claim C2, as amended. For every envelope that decodes and reaches FinalConfig, the
  three merges happen in the order cleanup, downstream build, final merge: FinalConfig
  is the downstream document (the rendered patch merged onto \<^verbatim>\<open>config\<close> or \<open>{}\<close>)
  merged onto the cleaned envelope. A downstream document that is no object replaces
  the cleaned envelope wholesale. Otherwise, key by key: a key the downstream document
  lacks keeps the cleaned envelope's value; a key it holds with \<open>null\<close> is absent from
  FinalConfig; a key it holds with a value that is no object has exactly that value
  in FinalConfig; a key it holds with an object has the merge of that object onto the
  cleaned envelope's value.
\<close>

theorem downstream_merged_onto_cleaned:
  assumes "json_Unmarshal input (new_PluginConfig input) = Inr conf"
    and "generateDownstream eng conf = Inr final"
  shows "\<exists>cms d. cleaned_of conf = Some (JObject cms) \<and> downstream_of eng conf = Some d
           \<and> final = Enc (merge_patch (JObject cms) d)
           \<and> (\<not> is_object d \<longrightarrow> final = Enc d)
           \<and> (\<forall>dms. d = JObject dms \<longrightarrow>
                (\<exists>fms. final = Enc (JObject fms)
                   \<and> (\<forall>k. obj_get fms k =
                        (case obj_get dms k of
                           None \<Rightarrow> obj_get cms k
                         | Some dv \<Rightarrow>
                             if dv = JNull then None
                             else if is_object dv then
                               Some (merge_patch
                                       (case obj_get cms k of Some cv \<Rightarrow> cv | None \<Rightarrow> JNull) dv)
                             else Some dv))))"
proof -
  from generateDownstream_Inr [OF assms(2)] obtain c d where
    c: "cleaned_of conf = Some c" and d: "downstream_of eng conf = Some d"
    and f: "final = Enc (merge_patch c d)"
    by blast
  have "''plugin'' \<in> set [''plugin'', ''config'', ''patch'']" by simp
  from cleaned_of_own_fields [OF c this] obtain cms where cms: "c = JObject cms"
    by blast
  from json_Unmarshal_keeps(3) [OF assms(1)] d have asc: "top_ascending d"
    by (rule downstream_of_ascending)
  have 1: "final = Enc d" if "\<not> is_object d"
    using that f by (simp add: merge_patch_not_object)
  have 2: "\<exists>fms. final = Enc (JObject fms)
             \<and> (\<forall>k. obj_get fms k =
                  (case obj_get dms k of
                     None \<Rightarrow> obj_get cms k
                   | Some dv \<Rightarrow>
                       if dv = JNull then None
                       else if is_object dv then
                         Some (merge_patch
                                 (case obj_get cms k of Some cv \<Rightarrow> cv | None \<Rightarrow> JNull) dv)
                       else Some dv))"
    if dms: "d = JObject dms" for dms
  proof -
    from asc dms have "distinct (map fst dms)"
      by (simp add: ascending_distinct)
    from obj_get_merge_members [OF this, of cms]
    have "obj_get (merge_members cms dms) k =
            (case obj_get dms k of
               None \<Rightarrow> obj_get cms k
             | Some dv \<Rightarrow>
                 if dv = JNull then None
                 else if is_object dv then
                   Some (merge_patch
                           (case obj_get cms k of Some cv \<Rightarrow> cv | None \<Rightarrow> JNull) dv)
                 else Some dv)" for k
      by (simp add: merge_patch_not_object split: option.split)
    with f cms dms show ?thesis by simp
  qed
  from c d f cms 1 2 show ?thesis by blast
qed

lemma json_Unmarshal_envelope_noop:
  "json_Unmarshal envelope_noop (new_PluginConfig envelope_noop) = Inr conf_noop"
  by code_simp

lemma json_Unmarshal_envelope_ipam:
  "json_Unmarshal envelope_ipam (new_PluginConfig envelope_ipam) = Inr conf_ipam"
  by code_simp

lemma generateDownstream_conf_ipam:
  "generateDownstream plain_text_engine conf_ipam = Inr (Enc (JObject final_ipam))"
  by code_simp

lemma stages_conf_ipam:
  "cleaned_of conf_ipam = Some (JObject cleaned_ipam)"
  "downstream_of plain_text_engine conf_ipam = Some (JObject downstream_ipam)"
  by code_simp+

lemma json_Unmarshal_envelope_null_config:
  "json_Unmarshal envelope_null_config (new_PluginConfig envelope_null_config) =
     Inr conf_null_config"
  by code_simp

lemma generateDownstream_conf_null_config:
  "generateDownstream plain_text_engine conf_null_config =
     Inr (Enc (JObject [(''type'', JString ''debug'')]))"
  by code_simp

lemma stages_conf_null_config:
  "cleaned_of conf_null_config =
     Some (JObject [(''mtu'', JNumber ''1500''), (''type'', JString ''debug'')])"
  "downstream_of plain_text_engine conf_null_config = Some (JObject [(''mtu'', JNull)])"
  by code_simp+

text \<open>The theorem at two envelopes. In the first the downstream document holds
  \<^verbatim>\<open>ipam\<close> with an object, which is merged onto the envelope's, and \<^verbatim>\<open>mtu\<close> with
  a number, which FinalConfig takes, and lacks \<^verbatim>\<open>type\<close>, which stays as the
  cleanup has set it. In the second it holds \<^verbatim>\<open>mtu\<close> with \<open>null\<close>, and FinalConfig
  has no \<^verbatim>\<open>mtu\<close>.\<close>

theorem downstream_merged_onto_cleaned_witness:
  "json_Unmarshal envelope_ipam (new_PluginConfig envelope_ipam) = Inr conf_ipam
   \<and> generateDownstream plain_text_engine conf_ipam = Inr (Enc (JObject final_ipam))
   \<and> cleaned_of conf_ipam = Some (JObject cleaned_ipam)
   \<and> downstream_of plain_text_engine conf_ipam = Some (JObject downstream_ipam)
   \<and> (\<forall>k. obj_get final_ipam k =
          (case obj_get downstream_ipam k of
             None \<Rightarrow> obj_get cleaned_ipam k
           | Some dv \<Rightarrow>
               if dv = JNull then None
               else if is_object dv then
                 Some (merge_patch
                         (case obj_get cleaned_ipam k of Some cv \<Rightarrow> cv | None \<Rightarrow> JNull) dv)
               else Some dv))
   \<and> obj_get final_ipam ''ipam'' =
         Some (merge_patch
                 (JObject [(''subnet'', JString ''a''), (''type'', JString ''host-local'')])
                 (JObject [(''subnet'', JString ''b'')]))
   \<and> obj_get final_ipam ''mtu'' = Some (JNumber ''1400'')
   \<and> obj_get final_ipam ''type'' = Some (JString ''debug'')
   \<and> json_Unmarshal envelope_null_config (new_PluginConfig envelope_null_config) =
         Inr conf_null_config
   \<and> generateDownstream plain_text_engine conf_null_config =
         Inr (Enc (JObject [(''type'', JString ''debug'')]))
   \<and> (\<forall>k. obj_get [(''type'', JString ''debug'')] k =
          (case obj_get [(''mtu'', JNull)] k of
             None \<Rightarrow> obj_get [(''mtu'', JNumber ''1500''), (''type'', JString ''debug'')] k
           | Some dv \<Rightarrow>
               if dv = JNull then None
               else if is_object dv then
                 Some (merge_patch
                         (case obj_get [(''mtu'', JNumber ''1500''), (''type'', JString ''debug'')] k
                          of Some cv \<Rightarrow> cv | None \<Rightarrow> JNull) dv)
               else Some dv))"
proof -
  from downstream_merged_onto_cleaned
         [OF json_Unmarshal_envelope_ipam generateDownstream_conf_ipam]
  obtain cms d where
    a: "cleaned_of conf_ipam = Some (JObject cms)"
       "downstream_of plain_text_engine conf_ipam = Some d"
    and b: "\<forall>dms. d = JObject dms \<longrightarrow>
              (\<exists>fms. Enc (JObject final_ipam) = Enc (JObject fms)
                 \<and> (\<forall>k. obj_get fms k =
                      (case obj_get dms k of
                         None \<Rightarrow> obj_get cms k
                       | Some dv \<Rightarrow>
                           if dv = JNull then None
                           else if is_object dv then
                             Some (merge_patch
                                     (case obj_get cms k of Some cv \<Rightarrow> cv | None \<Rightarrow> JNull) dv)
                           else Some dv)))"
    by blast
  from a stages_conf_ipam have c: "cms = cleaned_ipam" "d = JObject downstream_ipam"
    by simp_all
  from b [unfolded c] have 1: "\<forall>k. obj_get final_ipam k =
          (case obj_get downstream_ipam k of
             None \<Rightarrow> obj_get cleaned_ipam k
           | Some dv \<Rightarrow>
               if dv = JNull then None
               else if is_object dv then
                 Some (merge_patch
                         (case obj_get cleaned_ipam k of Some cv \<Rightarrow> cv | None \<Rightarrow> JNull) dv)
               else Some dv)"
    by simp
  from 1 have 2: "obj_get final_ipam ''ipam'' =
         Some (merge_patch
                 (JObject [(''subnet'', JString ''a''), (''type'', JString ''host-local'')])
                 (JObject [(''subnet'', JString ''b'')]))"
    "obj_get final_ipam ''mtu'' = Some (JNumber ''1400'')"
    "obj_get final_ipam ''type'' = Some (JString ''debug'')"
    by (simp_all add: downstream_ipam_def cleaned_ipam_def)
  from downstream_merged_onto_cleaned
         [OF json_Unmarshal_envelope_null_config generateDownstream_conf_null_config]
  obtain cms' d' where
    a': "cleaned_of conf_null_config = Some (JObject cms')"
        "downstream_of plain_text_engine conf_null_config = Some d'"
    and b': "\<forall>dms. d' = JObject dms \<longrightarrow>
              (\<exists>fms. Enc (JObject [(''type'', JString ''debug'')]) = Enc (JObject fms)
                 \<and> (\<forall>k. obj_get fms k =
                      (case obj_get dms k of
                         None \<Rightarrow> obj_get cms' k
                       | Some dv \<Rightarrow>
                           if dv = JNull then None
                           else if is_object dv then
                             Some (merge_patch
                                     (case obj_get cms' k of Some cv \<Rightarrow> cv | None \<Rightarrow> JNull) dv)
                           else Some dv)))"
    by blast
  from a' stages_conf_null_config
  have c': "cms' = [(''mtu'', JNumber ''1500''), (''type'', JString ''debug'')]"
    "d' = JObject [(''mtu'', JNull)]"
    by simp_all
  from b' [unfolded c'] have 3: "\<forall>k. obj_get [(''type'', JString ''debug'')] k =
          (case obj_get [(''mtu'', JNull)] k of
             None \<Rightarrow> obj_get [(''mtu'', JNumber ''1500''), (''type'', JString ''debug'')] k
           | Some dv \<Rightarrow>
               if dv = JNull then None
               else if is_object dv then
                 Some (merge_patch
                         (case obj_get [(''mtu'', JNumber ''1500''), (''type'', JString ''debug'')] k
                          of Some cv \<Rightarrow> cv | None \<Rightarrow> JNull) dv)
               else Some dv)"
    by simp
  from json_Unmarshal_envelope_ipam generateDownstream_conf_ipam stages_conf_ipam 1 2
    json_Unmarshal_envelope_null_config generateDownstream_conf_null_config 3
  show ?thesis by blast
qed

theorem downstream_value_counterexample:
  \<open>parseConf plain_text_engine [] envelope_null_patch =
     Return (Some \<lparr>Config = Some (Enc (JObject [(''name'', JString ''cfg'')])),
                   Patch = ''{"name": null}'', Plugin = ''debug'', Skip = nil_slice,
                   stdin = envelope_null_patch,
                   downstreamConfig =
                     Enc (JObject [(''name'', JString ''orig''), (''type'', JString ''debug'')])\<rparr>,
             None)
   \<and> parseConf plain_text_engine [] envelope_ipam =
     Return (Some \<lparr>Config = Some (Enc (JObject [(''ipam'', JObject [(''subnet'', JString ''b'')]),
                                                (''mtu'', JNumber ''1400'')])),
                   Patch = [], Plugin = ''debug'', Skip = nil_slice, stdin = envelope_ipam,
                   downstreamConfig =
                     Enc (JObject [(''ipam'', JObject [(''subnet'', JString ''b''),
                                                       (''type'', JString ''host-local'')]),
                                   (''mtu'', JNumber ''1400''),
                                   (''type'', JString ''debug'')])\<rparr>,
             None)\<close>
  by code_simp

text \<open>
  After decoding and template execution the three stages fail only on the two texts
  that the program builds or renders: stage 1 on the cleanup patch, stage 2 on the
  rendered patch. The envelope, the \<^verbatim>\<open>config\<close> value and the results of stages 1 and
  2 always decode.
\<close>

lemma generateDownstream_merge_cases:
  assumes "json_Unmarshal input (new_PluginConfig input) = Inr conf"
    and "tmpl_Parse eng (Patch conf) = None"
    and "json_Unmarshal_interface input = Inr view"
    and "tmpl_Execute eng (Patch conf) view = Inr merger"
  shows "(json_parse (cleanup_patch (Plugin conf)) = None \<longrightarrow>
            generateDownstream eng conf =
              Inl (NewError ErrMergeJSONFailed ''failed to clean up undelegated config items''
                     ErrBadJSONPatch))
       \<and> (json_parse (cleanup_patch (Plugin conf)) \<noteq> None
            \<and> json_parse (if merger = [] then ''{}'' else merger) = None \<longrightarrow>
            generateDownstream eng conf =
              Inl (NewError ErrMergeJSONFailed ''failed to merge patch with downstream config''
                     ErrBadJSONPatch))
       \<and> (json_parse (cleanup_patch (Plugin conf)) \<noteq> None
            \<and> json_parse (if merger = [] then ''{}'' else merger) \<noteq> None \<longrightarrow>
            (\<exists>final. generateDownstream eng conf = Inr final))
       \<and> (plain (Plugin conf) \<longrightarrow> json_parse (cleanup_patch (Plugin conf)) \<noteq> None)"
proof -
  define patch where "patch = (if merger = [] then ''{}'' else merger)"
  define base where "base = (case Config conf of None \<Rightarrow> Raw ''{}'' | Some c \<Rightarrow> c)"
  note k = json_Unmarshal_keeps [OF assms(1)]
  from k(2) obtain v where v: "json_parse input = Some v" ..
  have pv: "json_parse (stdin conf) = Some v"
    using k(1) v by simp
  from k(3) obtain b where b: "decode_document base = Some b"
    by (auto simp add: base_def json_parse_empty_object)
  have pre: "generateDownstream eng conf =
      (case MergePatch (Raw (stdin conf)) (Raw (cleanup_patch (Plugin conf))) of
         Inl e \<Rightarrow>
           Inl (NewError ErrMergeJSONFailed ''failed to clean up undelegated config items'' e)
       | Inr cleaned \<Rightarrow>
      (case MergePatch base (Raw patch) of
         Inl e \<Rightarrow>
           Inl (NewError ErrMergeJSONFailed ''failed to merge patch with downstream config'' e)
       | Inr downstream \<Rightarrow>
      (case MergePatch cleaned downstream of
         Inl e \<Rightarrow>
           Inl (NewError ErrMergeJSONFailed
                  ''failed to merge downstream config with original'' e)
       | Inr finalConfig \<Rightarrow> Inr finalConfig)))"
    using assms(2-4) k(1)
    by (simp add: generateDownstream_def Let_def patch_def base_def if_distrib [of Raw]
        cong: sum.case_cong)
  have m1: "MergePatch (Raw (stdin conf)) (Raw (cleanup_patch (Plugin conf))) =
              (case json_parse (cleanup_patch (Plugin conf)) of
                 None \<Rightarrow> Inl ErrBadJSONPatch
               | Some p \<Rightarrow> Inr (Enc (merge_patch (canon v) (canon p))))"
    using pv by (simp add: MergePatch_def split: option.split)
  have m2: "MergePatch base (Raw patch) =
              (case json_parse patch of
                 None \<Rightarrow> Inl ErrBadJSONPatch
               | Some p \<Rightarrow> Inr (Enc (merge_patch b (canon p))))"
    using b by (simp add: MergePatch_def split: option.split)
  have m3: "MergePatch (Enc x) (Enc y) = Inr (Enc (merge_patch x y))" for x y
    by (simp add: MergePatch_def)
  have 1: "generateDownstream eng conf =
             Inl (NewError ErrMergeJSONFailed ''failed to clean up undelegated config items''
                    ErrBadJSONPatch)"
    if "json_parse (cleanup_patch (Plugin conf)) = None"
    using that by (simp add: pre m1)
  have 2: "generateDownstream eng conf =
             Inl (NewError ErrMergeJSONFailed ''failed to merge patch with downstream config''
                    ErrBadJSONPatch)"
    if "json_parse (cleanup_patch (Plugin conf)) \<noteq> None" and "json_parse patch = None"
    using that by (auto simp add: pre m1 m2)
  have 3: "\<exists>final. generateDownstream eng conf = Inr final"
    if "json_parse (cleanup_patch (Plugin conf)) \<noteq> None" and "json_parse patch \<noteq> None"
    using that by (auto simp add: pre m1 m2 m3)
  have 4: "json_parse (cleanup_patch (Plugin conf)) \<noteq> None" if "plain (Plugin conf)"
    using cleanup_patch_plain [OF that] by simp
  from 1 2 3 4 show ?thesis
    unfolding patch_def by blast
qed

lemma json_Unmarshal_envelope_text_patch:
  "json_Unmarshal envelope_text_patch (new_PluginConfig envelope_text_patch) = Inr conf_text_patch"
  by code_simp

lemma json_parse_envelope_text_patch:
  "json_parse envelope_text_patch =
     Some (JObject [(''type'', JString ''gator''), (''plugin'', JString ''debug''),
                    (''patch'', JString ''hello'')])"
  by code_simp

text \<open>
  Claim C8, as amended. For every envelope that is an object, passed decoding (into
  the configuration and into the plain interface) and template execution and names
  a plugin that needs no escaping, the branch \<^verbatim>\<open>MergeJSONFailed\<close> is reachable:
  stage 2 reports it whenever the rendered patch, after the normalization of the empty
  one, is not JSON, since nothing validates the rendered bytes before the merge. No
  stage reports it when the rendered patch is empty or a JSON object: then the
  envelope, the cleanup patch, the \<^verbatim>\<open>config\<close> value, the rendered patch and the
  results of stages 1 and 2 all decode.
\<close>

theorem merge_failure_from_rendered_patch:
  assumes "json_Unmarshal input (new_PluginConfig input) = Inr conf"
    and "json_parse input = Some (JObject ms)"
    and "tmpl_Parse eng (Patch conf) = None"
    and "json_Unmarshal_interface input = Inr view"
    and "tmpl_Execute eng (Patch conf) view = Inr merger"
    and "plain (Plugin conf)"
  shows "(json_parse (if merger = [] then ''{}'' else merger) = None \<longrightarrow>
            generateDownstream eng conf =
              Inl (NewError ErrMergeJSONFailed ''failed to merge patch with downstream config''
                     ErrBadJSONPatch))
       \<and> (merger = [] \<or> (\<exists>pms. json_parse merger = Some (JObject pms)) \<longrightarrow>
            (\<exists>final. generateDownstream eng conf = Inr final))"
proof -
  note c = generateDownstream_merge_cases [OF assms(1,3,4,5)]
  from c assms(6) have p: "json_parse (cleanup_patch (Plugin conf)) \<noteq> None"
    by blast
  have "json_parse (if merger = [] then ''{}'' else merger) \<noteq> None"
    if "merger = [] \<or> (\<exists>pms. json_parse merger = Some (JObject pms))"
    using that json_parse_empty_object by auto
  with c p show ?thesis by blast
qed

lemma json_Unmarshal_interface_envelope_text_patch:
  "json_Unmarshal_interface envelope_text_patch =
     Inr (JObject [(''patch'', JString ''hello''), (''plugin'', JString ''debug''),
                   (''type'', JString ''gator'')])"
  by code_simp

lemma json_parse_envelope_noop:
  "json_parse envelope_noop =
     Some (JObject [(''type'', JString ''gator''), (''plugin'', JString ''debug''),
                    (''prevResult'', JObject [(''key'', JString ''value'')])])"
  by code_simp

lemma json_Unmarshal_interface_envelope_noop:
  "json_Unmarshal_interface envelope_noop =
     Inr (JObject [(''plugin'', JString ''debug''),
                   (''prevResult'', JObject [(''key'', JString ''value'')]),
                   (''type'', JString ''gator'')])"
  by code_simp

text \<open>The theorem at the envelope whose patch is the text \<^verbatim>\<open>hello\<close>, where stage 2
  fails, and at the envelope of the no-op test, whose patch renders to nothing and
  where every stage succeeds.\<close>

theorem merge_failure_from_rendered_patch_witness:
  "json_Unmarshal envelope_text_patch (new_PluginConfig envelope_text_patch) = Inr conf_text_patch
   \<and> tmpl_Parse plain_text_engine (Patch conf_text_patch) = None
   \<and> plain (Plugin conf_text_patch)
   \<and> json_parse ''hello'' = None
   \<and> generateDownstream plain_text_engine conf_text_patch =
       Inl (NewError ErrMergeJSONFailed ''failed to merge patch with downstream config''
              ErrBadJSONPatch)
   \<and> json_Unmarshal envelope_noop (new_PluginConfig envelope_noop) = Inr conf_noop
   \<and> tmpl_Parse plain_text_engine (Patch conf_noop) = None
   \<and> plain (Plugin conf_noop)
   \<and> (\<exists>final. generateDownstream plain_text_engine conf_noop = Inr final)"
proof -
  have p: "tmpl_Parse plain_text_engine (Patch conf_text_patch) = None"
    by (simp add: plain_text_engine_def conf_text_patch_def)
  have e: "tmpl_Execute plain_text_engine (Patch conf_text_patch) d = Inr ''hello''" for d
    by (simp add: plain_text_engine_def conf_text_patch_def)
  have c: "plain (Plugin conf_text_patch)"
    by (simp add: plain_def unescaped_def rune_length_def conf_text_patch_def)
  have h: "json_parse ''hello'' = None"
    by (simp add: json_parse_def lex_idle_def is_space_def is_digit19_def)
  have p': "tmpl_Parse plain_text_engine (Patch conf_noop) = None"
    by (simp add: plain_text_engine_def conf_noop_def)
  have e': "tmpl_Execute plain_text_engine (Patch conf_noop) d = Inr []" for d
    by (simp add: plain_text_engine_def conf_noop_def)
  have c': "plain (Plugin conf_noop)"
    by (simp add: plain_def unescaped_def rune_length_def conf_noop_def)
  from merge_failure_from_rendered_patch
         [OF json_Unmarshal_envelope_text_patch json_parse_envelope_text_patch p
             json_Unmarshal_interface_envelope_text_patch e c]
       merge_failure_from_rendered_patch
         [OF json_Unmarshal_envelope_noop json_parse_envelope_noop p'
             json_Unmarshal_interface_envelope_noop e' c']
    h json_Unmarshal_envelope_text_patch p c json_Unmarshal_envelope_noop p' c'
  show ?thesis by simp
qed

theorem merge_failure_reachable_counterexample:
  "main (run_of envelope_text_patch [] plain_text_engine default_plugin exits_7)
     = \<lparr>to_stdout = [],
        to_stderr = ''failed to merge patch with downstream config; Invalid JSON Patch'',
        exit_code = 101\<rparr>"
  by (simp add: main_def run_of_def version_flag_def parseConf_envelope_text_patch
      handleError_def Error_text_def os_Exit_def)

text \<open>A plugin name with a double quote breaks the cleanup patch, which is built
  without escaping, and stage 1 fails.\<close>

lemma quoted_plugin_fails_cleanup:
  "parseConf plain_text_engine [] envelope_quoted_plugin =
     Return (Some \<lparr>Config = None, Patch = [], Plugin = ''de'' @ [CHR 0x22] @ ''bug'', Skip = nil_slice,
                   stdin = envelope_quoted_plugin, downstreamConfig = Raw []\<rparr>,
             Some \<lparr>Code = 101, Msg = ''failed to clean up undelegated config items'',
                   Details = ''Invalid JSON Patch''\<rparr>)"
  by code_simp

text \<open>A number beyond the range of \<^verbatim>\<open>float64\<close> passes the decoding into the
  configuration and fails the decoding into the plain interface, with the decoding
  code.\<close>

lemma out_of_range_1e999: "out_of_range ''1e999''"
  by (simp add: out_of_range_def digits_value_def is_exp_def float64_bound_def)

lemma large_number_fails_second_decoding:
  "parseConf plain_text_engine [] envelope_large_number =
     Return (Some \<lparr>Config = None, Patch = [], Plugin = ''debug'', Skip = nil_slice,
                   stdin = envelope_large_number, downstreamConfig = Raw []\<rparr>,
             Some \<lparr>Code = 6, Msg = ''failed to parse stdin to plain interface'',
                   Details = ''json: cannot unmarshal number 1e999 into Go value of type float64''\<rparr>)"
proof -
  have u: "json_Unmarshal envelope_large_number (new_PluginConfig envelope_large_number) =
             Inr \<lparr>Config = None, Patch = [], Plugin = ''debug'', Skip = nil_slice,
                  stdin = envelope_large_number, downstreamConfig = Raw []\<rparr>"
    by code_simp
  have p: "json_parse envelope_large_number =
             Some (JObject [(''type'', JString ''gator''), (''plugin'', JString ''debug''),
                            (''mtu'', JNumber ''1e999'')])"
    by code_simp
  have i: "json_Unmarshal_interface envelope_large_number = Inl (range_error ''1e999'')"
    by (simp add: json_Unmarshal_interface_def p out_of_range_1e999)
  show ?thesis
    by (simp add: parseConf_def u slices_Contains_def os_Getenv_def nil_slice_def
        generateDownstream_def plain_text_engine_def i NewError_def ErrDecodingFailure_def
        range_error_def)
qed

text \<open>
  Claim C9. When the template renders to no bytes at all, the patch handed to the
  downstream-build stage is the text \<open>{}\<close>: the whole composition gives what it gives
  for an engine that renders the identity patch \<open>{}\<close> itself. Explicitly, when the
  template parses, the envelope is an object and the cleanup stage succeeds, no stage
  fails and FinalConfig is the cleaned envelope when \<^verbatim>\<open>config\<close> is absent, and
  otherwise the \<^verbatim>\<open>config\<close> value merged onto the cleaned envelope, the value taken
  as it is when it is an object (and as \<open>{}\<close>, the result of patching a value that is
  no object with \<open>{}\<close>, when it is not).
\<close>

theorem empty_rendering_is_identity_patch:
  assumes "json_Unmarshal_interface (stdin conf) = Inr view"
    and "tmpl_Execute eng (Patch conf) view = Inr []"
  shows "generateDownstream eng conf
           = generateDownstream (eng\<lparr>tmpl_Execute := \<lambda>t d. Inr ''{}''\<rparr>) conf
       \<and> (\<forall>cleaned ms.
             tmpl_Parse eng (Patch conf) = None
             \<and> json_parse (stdin conf) = Some (JObject ms)
             \<and> cleaned_of conf = Some cleaned \<longrightarrow>
             (Config conf = None \<longrightarrow> generateDownstream eng conf = Inr (Enc cleaned))
           \<and> (\<forall>c. Config conf = Some (Enc c) \<longrightarrow>
                  generateDownstream eng conf =
                    Inr (Enc (merge_patch cleaned (if is_object c then c else JObject [])))))"
proof -
  have 1: "generateDownstream eng conf
             = generateDownstream (eng\<lparr>tmpl_Execute := \<lambda>t d. Inr ''{}''\<rparr>) conf"
    using assms by (simp add: generateDownstream_def split: option.split)
  have 2: "(Config conf = None \<longrightarrow> generateDownstream eng conf = Inr (Enc cleaned))
         \<and> (\<forall>c. Config conf = Some (Enc c) \<longrightarrow>
                generateDownstream eng conf =
                  Inr (Enc (merge_patch cleaned (if is_object c then c else JObject []))))"
    if p: "tmpl_Parse eng (Patch conf) = None" and c: "cleaned_of conf = Some cleaned"
    for cleaned
  proof -
    have "''plugin'' \<in> set [''plugin'', ''config'', ''patch'']" by simp
    from cleaned_of_own_fields [OF c this] obtain cms where cms: "cleaned = JObject cms"
      by blast
    from c have m1: "MergePatch (Raw (stdin conf)) (Raw (cleanup_patch (Plugin conf))) =
                       Inr (Enc cleaned)"
      by (auto simp add: cleaned_of_def MergePatch_def split: option.splits)
    have pre: "generateDownstream eng conf =
        (case MergePatch (case Config conf of None \<Rightarrow> Raw ''{}'' | Some c \<Rightarrow> c) (Raw ''{}'') of
           Inl e \<Rightarrow>
             Inl (NewError ErrMergeJSONFailed ''failed to merge patch with downstream config'' e)
         | Inr downstream \<Rightarrow>
        (case MergePatch (Enc cleaned) downstream of
           Inl e \<Rightarrow>
             Inl (NewError ErrMergeJSONFailed
                    ''failed to merge downstream config with original'' e)
         | Inr finalConfig \<Rightarrow> Inr finalConfig))"
      using assms p m1 by (simp add: generateDownstream_def Let_def)
    have e: "merge_patch x (JObject []) = (if is_object x then x else JObject [])" for x
      by (cases x) simp_all
    have n: "generateDownstream eng conf = Inr (Enc cleaned)" if "Config conf = None"
      using that by (simp add: pre MergePatch_def json_parse_empty_object e cms
          del: merge_patch.simps)
    have o: "generateDownstream eng conf =
               Inr (Enc (merge_patch cleaned (if is_object c then c else JObject [])))"
      if "Config conf = Some (Enc c)" for c
      using that by (simp add: pre MergePatch_def json_parse_empty_object e
          del: merge_patch.simps)
    from n o show ?thesis by blast
  qed
  from 1 2 show ?thesis by blast
qed

lemma json_Unmarshal_interface_conf_ipam:
  "json_Unmarshal_interface (stdin conf_ipam) =
     Inr (JObject [(''config'', JObject [(''ipam'', JObject [(''subnet'', JString ''b'')]),
                                         (''mtu'', JNumber ''1400'')]),
                   (''ipam'', JObject [(''subnet'', JString ''a''),
                                       (''type'', JString ''host-local'')]),
                   (''plugin'', JString ''debug''),
                   (''type'', JString ''gator'')])"
  by code_simp

text \<open>The theorem at the envelope whose \<^verbatim>\<open>config\<close> holds \<^verbatim>\<open>ipam\<close> and \<^verbatim>\<open>mtu\<close>
  and which has no patch: FinalConfig is the \<^verbatim>\<open>config\<close> value merged onto the
  cleaned envelope, not the cleaned envelope.\<close>

theorem empty_rendering_is_identity_patch_witness:
  "(\<exists>view. json_Unmarshal_interface (stdin conf_ipam) = Inr view
       \<and> tmpl_Execute plain_text_engine (Patch conf_ipam) view = Inr [])
   \<and> tmpl_Parse plain_text_engine (Patch conf_ipam) = None
   \<and> (\<exists>ms. json_parse (stdin conf_ipam) = Some (JObject ms))
   \<and> cleaned_of conf_ipam = Some (JObject cleaned_ipam)
   \<and> Config conf_ipam = Some (Enc (JObject downstream_ipam))
   \<and> generateDownstream plain_text_engine conf_ipam
       = generateDownstream (plain_text_engine\<lparr>tmpl_Execute := \<lambda>t d. Inr ''{}''\<rparr>) conf_ipam
   \<and> generateDownstream plain_text_engine conf_ipam
       = Inr (Enc (merge_patch (JObject cleaned_ipam) (JObject downstream_ipam)))
   \<and> merge_patch (JObject cleaned_ipam) (JObject downstream_ipam) = JObject final_ipam
   \<and> final_ipam \<noteq> cleaned_ipam"
proof -
  have e: "tmpl_Execute plain_text_engine (Patch conf_ipam) d = Inr []" for d
    by (simp add: plain_text_engine_def conf_ipam_def)
  have p: "tmpl_Parse plain_text_engine (Patch conf_ipam) = None"
    by (simp add: plain_text_engine_def conf_ipam_def)
  have c: "Config conf_ipam = Some (Enc (JObject downstream_ipam))"
    by (simp add: conf_ipam_def downstream_ipam_def)
  have m: "merge_patch (JObject cleaned_ipam) (JObject downstream_ipam) = JObject final_ipam"
    "final_ipam \<noteq> cleaned_ipam"
    by (simp_all add: cleaned_ipam_def downstream_ipam_def final_ipam_def)
  have j: "json_parse (stdin conf_ipam) =
             Some (JObject [(''type'', JString ''gator''), (''plugin'', JString ''debug''),
                            (''ipam'', JObject [(''type'', JString ''host-local''),
                                                (''subnet'', JString ''a'')]),
                            (''config'', JObject [(''ipam'', JObject [(''subnet'', JString ''b'')]),
                                                  (''mtu'', JNumber ''1400'')])])"
    by code_simp
  note t = empty_rendering_is_identity_patch [OF json_Unmarshal_interface_conf_ipam e]
  from t have g1: "generateDownstream plain_text_engine conf_ipam
          = generateDownstream (plain_text_engine\<lparr>tmpl_Execute := \<lambda>t d. Inr ''{}''\<rparr>) conf_ipam"
    by (rule conjunct1)
  from t p j stages_conf_ipam(1) c
  have "generateDownstream plain_text_engine conf_ipam
          = Inr (Enc (merge_patch (JObject cleaned_ipam)
                        (if is_object (JObject downstream_ipam) then JObject downstream_ipam
                         else JObject [])))"
    by blast
  then have g2: "generateDownstream plain_text_engine conf_ipam
          = Inr (Enc (merge_patch (JObject cleaned_ipam) (JObject downstream_ipam)))"
    by (simp del: merge_patch.simps)
  from json_Unmarshal_interface_conf_ipam e p j stages_conf_ipam(1) c m g1 g2
  show ?thesis by blast
qed

subsection \<open>The empty patch\<close>

lemma canon_cleanup_plain:
  "canon (JObject ((''type'', JString s) # cleanup_members)) =
     JObject [(''config'', JNull), (''patch'', JNull), (''plugin'', JNull), (''type'', JString s)]"
  by (simp add: cleanup_members_def)

lemma merge_members_cleanup:
  "merge_members tms
     [(''config'', JNull), (''patch'', JNull), (''plugin'', JNull), (''type'', JString s)] =
     obj_set ''type'' (JString s) (obj_del ''plugin'' (obj_del ''patch'' (obj_del ''config'' tms)))"
  by simp

text \<open>
  With an empty patch that renders to nothing, a plugin name that needs no escaping
  and an envelope that is an object and decodes, FinalConfig is the envelope without its members
  \<^verbatim>\<open>config\<close>, \<^verbatim>\<open>patch\<close> and \<^verbatim>\<open>plugin\<close> and with \<^verbatim>\<open>type\<close> set to the plugin
  name, unchanged when \<^verbatim>\<open>config\<close> is absent and merged with \<^verbatim>\<open>config\<close> when that
  is an object: the patch stage is a no-op.
\<close>

lemma empty_patch_final_config:
  assumes "json_Unmarshal input (new_PluginConfig input) = Inr conf"
    and "json_parse input = Some (JObject ms)"
    and "Patch conf = []"
    and "tmpl_Parse eng [] = None"
    and "json_Unmarshal_interface input = Inr view"
    and "tmpl_Execute eng [] view = Inr []"
    and "plain (Plugin conf)"
  defines "cleaned \<equiv>
     obj_set ''type'' (JString (Plugin conf))
       (obj_del ''plugin'' (obj_del ''patch'' (obj_del ''config''
          (obj_of_members [] (map (\<lambda>kv. (fst kv, canon (snd kv))) ms)))))"
  shows "Config conf = None \<longrightarrow> generateDownstream eng conf = Inr (Enc (JObject cleaned))"
    and "Config conf = Some (Enc (JObject cfg)) \<longrightarrow>
           generateDownstream eng conf = Inr (Enc (merge_patch (JObject cleaned) (JObject cfg)))"
proof -
  note k = json_Unmarshal_keeps [OF assms(1)]
  have pv: "json_parse (stdin conf) = Some (JObject ms)"
    using k(1) assms(2) by simp
  have c: "decode_document (Raw (cleanup_patch (Plugin conf))) =
             Some (JObject [(''config'', JNull), (''patch'', JNull), (''plugin'', JNull),
                            (''type'', JString (Plugin conf))])"
    using cleanup_patch_plain [OF assms(7)] canon_cleanup_plain [of "Plugin conf"]
    by (simp del: canon.simps)
  have d: "decode_document (Raw (stdin conf)) =
             Some (JObject (obj_of_members [] (map (\<lambda>kv. (fst kv, canon (snd kv))) ms)))"
    using pv by simp
  have m1: "MergePatch (Raw (stdin conf)) (Raw (cleanup_patch (Plugin conf))) =
              Inr (Enc (JObject cleaned))"
    unfolding MergePatch_def c d by (simp add: cleaned_def)
  note e = json_parse_empty_object
  have pre: "generateDownstream eng conf =
      (case MergePatch (case Config conf of None \<Rightarrow> Raw ''{}'' | Some c \<Rightarrow> c) (Raw ''{}'') of
         Inl e \<Rightarrow>
           Inl (NewError ErrMergeJSONFailed ''failed to merge patch with downstream config'' e)
       | Inr downstream \<Rightarrow>
      (case MergePatch (Enc (JObject cleaned)) downstream of
         Inl e \<Rightarrow>
           Inl (NewError ErrMergeJSONFailed
                  ''failed to merge downstream config with original'' e)
       | Inr finalConfig \<Rightarrow> Inr finalConfig))"
    using assms(3-6) k(1) m1
    by (simp add: generateDownstream_def Let_def)
  show "Config conf = None \<longrightarrow> generateDownstream eng conf = Inr (Enc (JObject cleaned))"
    by (simp add: pre MergePatch_def e)
  show "Config conf = Some (Enc (JObject cfg)) \<longrightarrow>
          generateDownstream eng conf = Inr (Enc (merge_patch (JObject cleaned) (JObject cfg)))"
    by (simp add: pre MergePatch_def e)
qed

text \<open>
  Claim C4, evaluated. For the envelope of the no-op test the downstream plugin
  receives \<^verbatim>\<open>{"prevResult":{"key":"value"},"type":"debug"}\<close>, as the test expects.
  For an envelope with a skip list that does not hold the command of the run,
  FinalConfig still carries the member \<^verbatim>\<open>skip\<close>: the cleanup patch deletes
  \<^verbatim>\<open>plugin\<close>, \<^verbatim>\<open>config\<close> and \<^verbatim>\<open>patch\<close> only.
\<close>

theorem skip_member_reaches_final_config:
  "parseConf plain_text_engine [(''CNI_COMMAND'', ''ADD'')] envelope_skip_other =
     Return (Some \<lparr>Config = None, Patch = [], Plugin = ''debug'', Skip = Slice [''DEL''] [],
                   stdin = envelope_skip_other,
                   downstreamConfig =
                     Enc (JObject [(''skip'', JArray [JString ''DEL'']),
                                   (''type'', JString ''debug'')])\<rparr>,
             None)
   \<and> parseConf plain_text_engine [(''CNI_COMMAND'', ''ADD'')] envelope_noop =
     Return (Some \<lparr>Config = None, Patch = [], Plugin = ''debug'', Skip = nil_slice,
                   stdin = envelope_noop,
                   downstreamConfig =
                     Enc (JObject [(''prevResult'', JObject [(''key'', JString ''value'')]),
                                   (''type'', JString ''debug'')])\<rparr>,
             None)"
  by code_simp

subsection \<open>The earlier version\<close>

text \<open>After its own decoding, \<^verbatim>\<open>prepare\<close> of \<^verbatim>\<open>src/main.go\<close> composes FinalConfig
  as \<^verbatim>\<open>generateDownstream\<close> does: what is proved of the three stages holds of both
  versions.\<close>

lemma prepare_generateDownstream:
  "prepare eng input =
     (case json_Unmarshal_prepare input (new_PluginConfig []) of
        Inl e \<Rightarrow> Inl (NewError ErrDecodingFailure ''failed to parse JSON config'' e)
      | Inr conf \<Rightarrow>
          (case generateDownstream eng (conf\<lparr>stdin := input\<rparr>) of
             Inl e \<Rightarrow> Inl e
           | Inr finalConfig \<Rightarrow> Inr (conf\<lparr>downstreamConfig := finalConfig\<rparr>)))"
  by (simp add: prepare_def generateDownstream_def Let_def split: sum.split option.split)

lemma prepare_envelope_noop:
  "prepare plain_text_engine envelope_noop =
     Inr \<lparr>Config = None, Patch = [], Plugin = ''debug'', Skip = nil_slice, stdin = [],
          downstreamConfig =
            Enc (JObject [(''prevResult'', JObject [(''key'', JString ''value'')]),
                          (''type'', JString ''debug'')])\<rparr>"
  by code_simp

end
